theory Spec2Isabelle
  imports Complex_Main
begin

section \<open>JavaScript values and the host runtime\<close>

text \<open>
  The formatters, cells and header cells of \<^verbatim>\<open>lib/backgrid.js\<close> are embedded as HOL
  functions. Exceptions are values of a sum type; \<^verbatim>\<open>undefined\<close> is a value of its own.
  Strings are lists of characters with codes below 256; the white space of the runtime
  in that range is TAB, LF, VT, FF, CR, SP and NBSP.
\<close>

datatype error = Error string | RangeError string | ReferenceError string | TypeError

text \<open>
  A Number is NaN, an infinity, or a finite value. Finite values carry their exact
  mathematical value; \<^verbatim>\<open>-0\<close> and \<^verbatim>\<open>+0\<close> are not told apart (no modelled
  operation distinguishes them).
\<close>

datatype jsnum = NaN | PosInf | NegInf | Fin rat

datatype jsval = JUndefined | JNull | JBool bool | JNum jsnum | JStr string

text \<open>
  What the code takes from the browser and cannot be read off the repository: whether
  \<^verbatim>\<open>String.prototype.trim\<close> exists, the Number-to-String conversion of a finite Number
  (shortest round-trip digits), and the local time zone.
\<close>

record js_runtime =
  native_trim :: bool
  number_toString :: "rat \<Rightarrow> string"
  LocalTZA :: int
  DaylightSavingTA :: "int \<Rightarrow> int"

subsection \<open>Strings\<close>

definition is_ws :: "char \<Rightarrow> bool" where
  "is_ws c = (c \<in> set [CHR 0x09, CHR 0x0A, CHR 0x0B, CHR 0x0C, CHR 0x0D, CHR 0x20, CHR 0xA0])"

definition str_trim :: "string \<Rightarrow> string" where
  "str_trim s = rev (dropWhile is_ws (rev (dropWhile is_ws s)))"

definition is_digit :: "char \<Rightarrow> bool" where
  "is_digit c = (c \<in> set ''0123456789'')"

definition digit_val :: "char \<Rightarrow> int" where
  "digit_val c = of_char c - 48"

definition digits_val :: "string \<Rightarrow> int" where
  "digits_val s = foldl (\<lambda>a c. 10 * a + digit_val c) 0 s"

text \<open>The decimal digits of a non-negative integer, without leading zeros.\<close>

function digits_of :: "int \<Rightarrow> string" where
  "digits_of n = (if n < 10 then [''0123456789'' ! nat n]
                  else digits_of (n div 10) @ [''0123456789'' ! nat (n mod 10)])"
  by pat_completeness auto
termination
  by (relation "measure nat") auto

declare digits_of.simps [simp del]

text \<open>\<^verbatim>\<open>i + ""\<close> for an integer \<open>i\<close> below \<open>2^53\<close> in size (the fields of a Date).\<close>

definition int_to_string :: "int \<Rightarrow> string" where
  "int_to_string i = (if i < 0 then CHR ''-'' # digits_of (- i) else digits_of i)"

fun to_string :: "js_runtime \<Rightarrow> jsval \<Rightarrow> string" where
  "to_string rt JUndefined = ''undefined''"
| "to_string rt JNull = ''null''"
| "to_string rt (JBool b) = (if b then ''true'' else ''false'')"
| "to_string rt (JNum NaN) = ''NaN''"
| "to_string rt (JNum PosInf) = ''Infinity''"
| "to_string rt (JNum NegInf) = ''-Infinity''"
| "to_string rt (JNum (Fin q)) = number_toString rt q"
| "to_string rt (JStr s) = s"

text \<open>
  \<^verbatim>\<open>function trim(s)\<close>: the native method refuses \<^verbatim>\<open>null\<close> and \<^verbatim>\<open>undefined\<close> as
  its receiver and stringifies anything else; the fallback calls \<^verbatim>\<open>s.replace\<close>, which
  only a string has.
\<close>

definition trim :: "js_runtime \<Rightarrow> jsval \<Rightarrow> error + string" where
  "trim rt s =
     (if native_trim rt then
        (case s of
           JUndefined \<Rightarrow> Inl TypeError
         | JNull \<Rightarrow> Inl TypeError
         | _ \<Rightarrow> Inr (str_trim (to_string rt s)))
      else
        (case s of
           JStr t \<Rightarrow> Inr (str_trim t)
         | _ \<Rightarrow> Inl TypeError))"


text \<open>
  \<^verbatim>\<open>lpad(str, length, padstr)\<close> on the string form of \<^verbatim>\<open>str\<close>; a negative padding
  length is replaced by 0, which the truncating subtraction of \<open>nat\<close> does.
\<close>

definition lpad :: "string \<Rightarrow> nat \<Rightarrow> string \<Rightarrow> string" where
  "lpad str len padstr = concat (replicate (len - length str) padstr) @ str"

fun starts_with :: "string \<Rightarrow> string \<Rightarrow> bool" where
  "starts_with [] s = True"
| "starts_with (p # ps) [] = False"
| "starts_with (p # ps) (c # cs) = (p = c \<and> starts_with ps cs)"

text \<open>
  \<^verbatim>\<open>String.prototype.split\<close> with a string separator. The third argument counts the
  characters of a matched separator still to be skipped.
\<close>

fun split_at :: "string \<Rightarrow> string \<Rightarrow> nat \<Rightarrow> string \<Rightarrow> string list" where
  "split_at sep cur k [] = [cur]"
| "split_at sep cur (Suc k) (c # cs) = split_at sep cur k cs"
| "split_at sep cur 0 (c # cs) =
     (if starts_with sep (c # cs) then cur # split_at sep [] (length sep - 1) cs
      else split_at sep (cur @ [c]) 0 cs)"

definition js_split :: "string \<Rightarrow> string \<Rightarrow> string list" where
  "js_split sep s = (if sep = [] then map (\<lambda>c. [c]) s else split_at sep [] 0 s)"

text \<open>\<^verbatim>\<open>a[i]\<close> on an array: \<^verbatim>\<open>undefined\<close> out of range.\<close>

definition nth_opt :: "'a list \<Rightarrow> nat \<Rightarrow> 'a option" where
  "nth_opt xs i = (if i < length xs then Some (xs ! i) else None)"

subsection \<open>Numbers\<close>

text \<open>The number of binary digits of a positive integer.\<close>

function bits :: "int \<Rightarrow> int" where
  "bits n = (if n \<le> 0 then 0 else 1 + bits (n div 2))"
  by pat_completeness auto
termination
  by (relation "measure nat") auto

declare bits.simps [simp del]

definition pow2 :: "int \<Rightarrow> rat" where
  "pow2 e = (if 0 \<le> e then of_int (2 ^ nat e) else 1 / of_int (2 ^ nat (- e)))"

definition pow10 :: "int \<Rightarrow> rat" where
  "pow10 e = (if 0 \<le> e then of_int (10 ^ nat e) else 1 / of_int (10 ^ nat (- e)))"

text \<open>For \<open>0 < q\<close>, the \<open>e\<close> with \<open>2^e \<le> q < 2^(e+1)\<close>.\<close>

definition binexp :: "rat \<Rightarrow> int" where
  "binexp q = (if 1 \<le> q then bits \<lfloor>q\<rfloor> - 1 else - bits (\<lceil>1 / q\<rceil> - 1))"

definition round_half_even :: "rat \<Rightarrow> int" where
  "round_half_even x =
     (let f = \<lfloor>x\<rfloor>; d = x - of_int f
      in if d < 1 / 2 then f else if 1 / 2 < d then f + 1
         else if even f then f else f + 1)"

text \<open>
  The Number value of a real: IEEE 754 binary64, round to nearest, ties to even,
  gradual underflow, overflow to an infinity.
\<close>

definition nearest_double :: "rat \<Rightarrow> jsnum" where
  "nearest_double q =
     (if q = 0 then Fin 0
      else
        let a = \<bar>q\<bar>;
            e = max (binexp a) (- 1022);
            u = pow2 (e - 52);
            r = of_int (round_half_even (a / u)) * u
        in if e < 1023 then Fin (if q < 0 then - r else r)
           else if pow2 1024 \<le> r then (if q < 0 then NegInf else PosInf)
           else Fin (if q < 0 then - r else r))"

text \<open>The digits of a literal in base 2, 8 or 16, and their values.\<close>

definition is_radix_digit :: "int \<Rightarrow> char \<Rightarrow> bool" where
  "is_radix_digit radix c =
     (if radix = 2 then c \<in> set ''01''
      else if radix = 8 then c \<in> set ''01234567''
      else c \<in> set ''0123456789abcdefABCDEF'')"

definition hex_val :: "char \<Rightarrow> int" where
  "hex_val c = (if c \<in> set ''0123456789'' then of_char c - 48
                else if c \<in> set ''abcdef'' then of_char c - 87 else of_char c - 55)"

text \<open>The radix that the second character of a literal starting with 0 announces.\<close>

definition radix_of :: "char \<Rightarrow> int option" where
  "radix_of c =
     (if c = CHR ''x'' \<or> c = CHR ''X'' then Some 16
      else if c = CHR ''o'' \<or> c = CHR ''O'' then Some 8
      else if c = CHR ''b'' \<or> c = CHR ''B'' then Some 2
      else None)"

definition all_digits :: "string \<Rightarrow> bool" where
  "all_digits s = list_all is_digit s"

text \<open>\<^verbatim>\<open>ExponentPart\<close>, optional: \<^verbatim>\<open>e\<close> or \<^verbatim>\<open>E\<close>, an optional sign, digits.\<close>

definition exponent_part :: "string \<Rightarrow> int option" where
  "exponent_part s =
     (case s of
        [] \<Rightarrow> Some 0
      | c # cs \<Rightarrow>
          if c = CHR ''e'' \<or> c = CHR ''E'' then
            (case cs of
               [] \<Rightarrow> None
             | d # ds \<Rightarrow>
                 if d = CHR ''+'' then
                   (if ds \<noteq> [] \<and> all_digits ds then Some (digits_val ds) else None)
                 else if d = CHR ''-'' then
                   (if ds \<noteq> [] \<and> all_digits ds then Some (- digits_val ds) else None)
                 else if all_digits cs then Some (digits_val cs) else None)
          else None)"

text \<open>
  \<^verbatim>\<open>StrUnsignedDecimalLiteral\<close> other than \<^verbatim>\<open>Infinity\<close>: digits, an optional point
  and digits, an optional exponent; at least one digit pre or after the point.
\<close>

definition str_unsigned_decimal :: "string \<Rightarrow> rat option" where
  "str_unsigned_decimal s =
     (let ip = takeWhile is_digit s;
          r1 = dropWhile is_digit s;
          dot = (r1 \<noteq> [] \<and> hd r1 = CHR ''.'');
          fp = (if dot then takeWhile is_digit (tl r1) else []);
          r2 = (if dot then dropWhile is_digit (tl r1) else r1)
      in if ip = [] \<and> fp = [] then None
         else
           (case exponent_part r2 of
              None \<Rightarrow> None
            | Some e \<Rightarrow> Some (of_int (digits_val (ip @ fp)) * pow10 (e - int (length fp)))))"

definition str_unsigned :: "string \<Rightarrow> jsnum option" where
  "str_unsigned s =
     (if s = ''Infinity'' then Some PosInf
      else map_option nearest_double (str_unsigned_decimal s))"

definition negate :: "jsnum \<Rightarrow> jsnum" where
  "negate x = (case x of NaN \<Rightarrow> NaN | PosInf \<Rightarrow> NegInf | NegInf \<Rightarrow> PosInf | Fin q \<Rightarrow> Fin (- q))"

text \<open>
  \<^verbatim>\<open>StrNumericLiteral\<close>: a signed decimal literal, or an unsigned literal in base
  16, 8 or 2 with its prefix.
\<close>

definition str_numeric_literal :: "string \<Rightarrow> jsnum option" where
  "str_numeric_literal s =
     (case s of
        [] \<Rightarrow> None
      | c # cs \<Rightarrow>
          if c = CHR ''+'' then str_unsigned cs
          else if c = CHR ''-'' then map_option negate (str_unsigned cs)
          else if c = CHR ''0'' \<and> cs \<noteq> [] \<and> radix_of (hd cs) \<noteq> None then
            (case radix_of (hd cs) of
               None \<Rightarrow> None
             | Some radix \<Rightarrow>
                 if tl cs \<noteq> [] \<and> list_all (is_radix_digit radix) (tl cs)
                 then Some (nearest_double (of_int (foldl (\<lambda>a h. radix * a + hex_val h) 0 (tl cs))))
                 else None)
          else str_unsigned s)"

text \<open>\<^verbatim>\<open>ToNumber\<close> applied to a string (what \<^verbatim>\<open>1 * s\<close> computes).\<close>

definition ToNumber_string :: "string \<Rightarrow> jsnum" where
  "ToNumber_string s =
     (let t = str_trim s
      in if t = [] then Fin 0
         else (case str_numeric_literal t of None \<Rightarrow> NaN | Some x \<Rightarrow> x))"

fun ToNumber :: "jsval \<Rightarrow> jsnum" where
  "ToNumber JUndefined = NaN"
| "ToNumber JNull = Fin 0"
| "ToNumber (JBool b) = (if b then Fin 1 else Fin 0)"
| "ToNumber (JNum x) = x"
| "ToNumber (JStr s) = ToNumber_string s"

text \<open>
  \<^verbatim>\<open>Number.prototype.toFixed\<close>: the integer \<open>n\<close> for which \<open>n / 10^f\<close> is closest to
  \<open>x\<close>, the larger one on a tie, printed with \<open>f\<close> digits after the point; a Number of
  size \<open>10^21\<close> or more is printed by Number-to-String instead.
\<close>

definition fixed_digits :: "rat \<Rightarrow> nat \<Rightarrow> string" where
  "fixed_digits a f =
     (let n = \<lfloor>a * of_int (10 ^ f) + 1 / 2\<rfloor>;
          m = digits_of n
      in if f = 0 then m
         else
           let m' = replicate (f + 1 - length m) CHR ''0'' @ m;
               k = length m'
           in take (k - f) m' @ ''.'' @ drop (k - f) m')"

definition toFixed :: "js_runtime \<Rightarrow> jsnum \<Rightarrow> int \<Rightarrow> error + string" where
  "toFixed rt x f =
     (if f < 0 \<or> 20 < f then Inl (RangeError ''toFixed() digits argument must be between 0 and 20'')
      else
        (case x of
           NaN \<Rightarrow> Inr ''NaN''
         | PosInf \<Rightarrow> Inr ''Infinity''
         | NegInf \<Rightarrow> Inr ''-Infinity''
         | Fin q \<Rightarrow>
             Inr ((if q < 0 then ''-'' else '''') @
                  (if of_int (10 ^ 21) \<le> \<bar>q\<bar> then number_toString rt \<bar>q\<bar>
                   else fixed_digits \<bar>q\<bar> (nat f)))))"

section \<open>NumberFormatter\<close>

text \<open>
  \<^verbatim>\<open>decimals\<close> is documented as an integer; on the integers that pass the range check
  \<^verbatim>\<open>~~this.decimals\<close> is the identity. An absent option is \<open>None\<close> and takes the default.
\<close>

record NumberFormatter =
  decimals :: int
  decimalSeparator :: string
  orderSeparator :: string

record NumberFormatter_options =
  opt_decimals :: "int option"
  opt_decimalSeparator :: "string option"
  opt_orderSeparator :: "string option"

definition NumberFormatter_defaults :: NumberFormatter where
  "NumberFormatter_defaults = \<lparr>decimals = 2, decimalSeparator = ''.'', orderSeparator = '',''\<rparr>"

definition NumberFormatter_extend :: "NumberFormatter_options option \<Rightarrow> NumberFormatter" where
  "NumberFormatter_extend options =
     (case options of
        None \<Rightarrow> NumberFormatter_defaults
      | Some opts \<Rightarrow>
          \<lparr>decimals = (case opt_decimals opts of None \<Rightarrow> decimals NumberFormatter_defaults | Some d \<Rightarrow> d),
           decimalSeparator = (case opt_decimalSeparator opts of
               None \<Rightarrow> decimalSeparator NumberFormatter_defaults | Some s \<Rightarrow> s),
           orderSeparator = (case opt_orderSeparator opts of
               None \<Rightarrow> orderSeparator NumberFormatter_defaults | Some s \<Rightarrow> s)\<rparr>)"

definition NumberFormatter_new :: "NumberFormatter_options option \<Rightarrow> error + NumberFormatter" where
  "NumberFormatter_new options =
     (let this = NumberFormatter_extend options
      in if decimals this < 0 \<or> 20 < decimals this
         then Inl (RangeError ''decimals must be between 0 and 20'')
         else Inr this)"

text \<open>
  The substitution of a replacement template for one match of a pattern with a single
  capture group: \<^verbatim>\<open>$$\<close>, \<^verbatim>\<open>$&\<close>, \<^verbatim>\<open>$`\<close>, \<^verbatim>\<open>$'\<close>, \<^verbatim>\<open>$1\<close> and \<^verbatim>\<open>$01\<close> are
  expanded; a reference to a group that does not exist is left as it is written.
\<close>

fun expand_replacement :: "string \<Rightarrow> string \<Rightarrow> string \<Rightarrow> string \<Rightarrow> string \<Rightarrow> string" where
  "expand_replacement matched cap pre after [] = []"
| "expand_replacement matched cap pre after [c] = [c]"
| "expand_replacement matched cap pre after (c # d # r) =
     (if c \<noteq> CHR ''$'' then c # expand_replacement matched cap pre after (d # r)
      else if d = CHR ''$'' then CHR ''$'' # expand_replacement matched cap pre after r
      else if d = CHR ''&'' then matched @ expand_replacement matched cap pre after r
      else if d = CHR 0x60 then pre @ expand_replacement matched cap pre after r
      else if d = CHR 0x27 then after @ expand_replacement matched cap pre after r
      else if d = CHR ''1'' then cap @ expand_replacement matched cap pre after r
      else if d = CHR ''0'' \<and> r \<noteq> [] \<and> hd r = CHR ''1''
        then cap @ expand_replacement matched cap pre after (tl r)
      else c # expand_replacement matched cap pre after (d # r))"

text \<open>
  \<^verbatim>\<open>HUMANIZED_NUM_RE = /(\d)(?=(?:\d{3})+$)/g\<close> matches a digit that is followed, up to
  the end of the string, by a positive multiple of three digits and nothing else.
\<close>

definition HUMANIZED_NUM_RE_at :: "char \<Rightarrow> string \<Rightarrow> bool" where
  "HUMANIZED_NUM_RE_at c rest =
     (is_digit c \<and> rest \<noteq> [] \<and> all_digits rest \<and> length rest mod 3 = 0)"

fun replace_HUMANIZED :: "string \<Rightarrow> string \<Rightarrow> string \<Rightarrow> string" where
  "replace_HUMANIZED repl pre [] = []"
| "replace_HUMANIZED repl pre (c # cs) =
     (if HUMANIZED_NUM_RE_at c cs then expand_replacement [c] [c] pre cs repl else [c])
     @ replace_HUMANIZED repl (pre @ [c]) cs"

definition NumberFormatter_fromRaw :: "js_runtime \<Rightarrow> NumberFormatter \<Rightarrow> jsval \<Rightarrow> error + string" where
  "NumberFormatter_fromRaw rt this number =
     (if ToNumber number = NaN \<or> number = JNull then Inr ''''
      else
        (case number of
           JNum x \<Rightarrow>
             (case toFixed rt x (decimals this) of
                Inl e \<Rightarrow> Inl e
              | Inr s \<Rightarrow>
                  (let parts = js_split ''.'' s
                   in case parts of
                        [] \<Rightarrow> Inl TypeError
                      | integerPart # _ \<Rightarrow>
                          (let decimalPart =
                                 (case nth_opt parts 1 of
                                    None \<Rightarrow> ''''
                                  | Some p \<Rightarrow>
                                      if p \<noteq> [] then
                                        (if decimalSeparator this \<noteq> [] then decimalSeparator this else ''.'') @ p
                                      else '''')
                           in Inr (replace_HUMANIZED (''$1'' @ orderSeparator this) [] integerPart
                                   @ decimalPart))))
         | _ \<Rightarrow> Inl TypeError))"

definition NumberFormatter_clean :: "NumberFormatter \<Rightarrow> string \<Rightarrow> string" where
  "NumberFormatter_clean this t =
     (let thousands = js_split (orderSeparator this) t;
          rawData = concat thousands;
          decimalParts = js_split (decimalSeparator this) rawData;
          rawData' = concat (map (\<lambda>p. p @ ''.'') decimalParts)
      in if rawData' \<noteq> [] \<and> last rawData' = CHR ''.'' then butlast rawData' else rawData')"

definition NumberFormatter_toRaw :: "js_runtime \<Rightarrow> NumberFormatter \<Rightarrow> jsval \<Rightarrow> error + jsval" where
  "NumberFormatter_toRaw rt this formattedData =
     (case trim rt formattedData of
        Inl e \<Rightarrow> Inl e
      | Inr t \<Rightarrow>
          (case toFixed rt (ToNumber_string (NumberFormatter_clean this t)) (decimals this) of
             Inl e \<Rightarrow> Inl e
           | Inr s \<Rightarrow>
               (let result = ToNumber_string s
                in if result \<noteq> NaN then Inr (JNum result) else Inr JUndefined)))"

section \<open>DatetimeFormatter\<close>

record DatetimeFormatter =
  includeDate :: bool
  includeTime :: bool
  includeMilli :: bool


definition DatetimeFormatter_defaults :: DatetimeFormatter where
  "DatetimeFormatter_defaults = \<lparr>includeDate = True, includeTime = True, includeMilli = False\<rparr>"



subsection \<open>The four patterns\<close>

text \<open>
  \<^verbatim>\<open>ISO_SPLITTER_RE = /T|Z| +/\<close> as the separator of \<^verbatim>\<open>split\<close>: a \<^verbatim>\<open>T\<close>, a
  \<^verbatim>\<open>Z\<close>, or a run of spaces. The flag tells that the previous character was a space
  of a separator already emitted.
\<close>

fun ISO_split_from :: "bool \<Rightarrow> string \<Rightarrow> string \<Rightarrow> string list" where
  "ISO_split_from sp cur [] = [cur]"
| "ISO_split_from sp cur (c # cs) =
     (if c = CHR ''T'' \<or> c = CHR ''Z'' then cur # ISO_split_from False [] cs
      else if c = CHR '' '' then
        (if sp \<and> cur = [] then ISO_split_from True [] cs else cur # ISO_split_from True [] cs)
      else ISO_split_from False (cur @ [c]) cs)"

definition ISO_split :: "string \<Rightarrow> string list" where
  "ISO_split s = ISO_split_from False [] s"

text \<open>\<^verbatim>\<open>RegExp.prototype.exec\<close> stringifies its argument: \<^verbatim>\<open>undefined\<close> is matched as a word.\<close>

definition exec_arg :: "string option \<Rightarrow> string" where
  "exec_arg x = (case x of None \<Rightarrow> ''undefined'' | Some s \<Rightarrow> s)"

text \<open>\<^verbatim>\<open>DATE_RE = /^([+\-]?\d{4})-(\d{2})-(\d{2})$/\<close>; the result holds the three groups.\<close>

definition DATE_RE_exec :: "string \<Rightarrow> (string \<times> string \<times> string) option" where
  "DATE_RE_exec s =
     (let sg = (if s \<noteq> [] \<and> (hd s = CHR ''+'' \<or> hd s = CHR ''-'') then [hd s] else []);
          r = drop (length sg) s
      in if length r = 10 \<and> all_digits (take 4 r) \<and> r ! 4 = CHR ''-''
            \<and> all_digits (take 2 (drop 5 r)) \<and> r ! 7 = CHR ''-'' \<and> all_digits (drop 8 r)
         then Some (sg @ take 4 r, take 2 (drop 5 r), drop 8 r)
         else None)"

text \<open>
  \<^verbatim>\<open>TIME_RE = /^(\d{2}):(\d{2}):(\d{2})(\.\d{3})?$/\<close>; the fourth group, when it
  takes part, is a point and three digits.
\<close>

definition TIME_RE_exec :: "string \<Rightarrow> (string \<times> string \<times> string \<times> string option) option" where
  "TIME_RE_exec s =
     (if 8 \<le> length s \<and> all_digits (take 2 s) \<and> s ! 2 = CHR '':''
         \<and> all_digits (take 2 (drop 3 s)) \<and> s ! 5 = CHR '':'' \<and> all_digits (take 2 (drop 6 s))
      then
        (if length s = 8 then Some (take 2 s, take 2 (drop 3 s), take 2 (drop 6 s), None)
         else if length s = 12 \<and> s ! 8 = CHR ''.'' \<and> all_digits (drop 9 s)
           then Some (take 2 s, take 2 (drop 3 s), take 2 (drop 6 s), Some (drop 8 s))
         else None)
      else None)"

text \<open>\<^verbatim>\<open>ZONE_RE = /^([+\-]\d{2}):?(\d{2})$/\<close>.\<close>

definition ZONE_RE_exec :: "string \<Rightarrow> (string \<times> string) option" where
  "ZONE_RE_exec s =
     (if 5 \<le> length s \<and> (hd s = CHR ''+'' \<or> hd s = CHR ''-'') \<and> all_digits (take 2 (drop 1 s))
      then
        (let r = (if s ! 3 = CHR '':'' then drop 4 s else drop 3 s)
         in if length r = 2 \<and> all_digits r then Some (take 3 s, r) else None)
      else None)"

text \<open>
  \<^verbatim>\<open>1 * g\<close> for a group \<^verbatim>\<open>g\<close> of digits with an optional sign is the integer the
  digits write; for the fourth group of the time pattern it is a fraction below one,
  which the Date constructor truncates to an integer.
\<close>

definition group_val :: "string \<Rightarrow> int" where
  "group_val g =
     (case g of
        [] \<Rightarrow> 0
      | c # cs \<Rightarrow> if c = CHR ''-'' then - digits_val cs
                  else if c = CHR ''+'' then digits_val cs else digits_val g)"

definition milli_val :: "string option \<Rightarrow> int" where
  "milli_val g = (case g of None \<Rightarrow> 0 | Some ds \<Rightarrow> digits_val (drop 1 ds) div 1000)"

subsection \<open>Date\<close>

text \<open>
  A Date holds a time value, milliseconds since the epoch in UTC, or NaN (\<open>None\<close>).
  Day numbers and calendar dates are converted in the proleptic Gregorian calendar.
\<close>

definition days_from_civil :: "int \<Rightarrow> int \<Rightarrow> int \<Rightarrow> int" where
  "days_from_civil y m d =
     (let y' = (if m \<le> 2 then y - 1 else y);
          era = y' div 400;
          yoe = y' - era * 400;
          doy = (153 * (if 2 < m then m - 3 else m + 9) + 2) div 5 + d - 1;
          doe = yoe * 365 + yoe div 4 - yoe div 100 + doy
      in era * 146097 + doe - 719468)"

definition civil_from_days :: "int \<Rightarrow> int \<times> int \<times> int" where
  "civil_from_days z =
     (let z' = z + 719468;
          era = z' div 146097;
          doe = z' - era * 146097;
          yoe = (doe - doe div 1460 + doe div 36524 - doe div 146096) div 365;
          doy = doe - (365 * yoe + yoe div 4 - yoe div 100);
          mp = (5 * doy + 2) div 153;
          d = doy - (153 * mp + 2) div 5 + 1;
          m = (if mp < 10 then mp + 3 else mp - 9)
      in (yoe + era * 400 + (if m \<le> 2 then 1 else 0), m, d))"

definition msPerDay :: int where
  "msPerDay = 86400000"

definition MakeTime :: "int \<Rightarrow> int \<Rightarrow> int \<Rightarrow> int \<Rightarrow> int" where
  "MakeTime hour minute sec ms = hour * 3600000 + minute * 60000 + sec * 1000 + ms"

text \<open>The month counts from 0 and may lie outside \<open>0..11\<close>; the day may lie outside the month.\<close>

definition MakeDay :: "int \<Rightarrow> int \<Rightarrow> int \<Rightarrow> int" where
  "MakeDay year month date =
     days_from_civil (year + month div 12) (month mod 12 + 1) 1 + date - 1"

definition MakeDate :: "int \<Rightarrow> int \<Rightarrow> int" where
  "MakeDate day time = day * msPerDay + time"

definition TimeClip :: "int \<Rightarrow> int option" where
  "TimeClip t = (if 8640000000000000 < \<bar>t\<bar> then None else Some t)"

text \<open>A year from 0 to 99 given to the constructor or to \<^verbatim>\<open>Date.UTC\<close> means 1900 + year.\<close>

definition full_year :: "int \<Rightarrow> int" where
  "full_year y = (if 0 \<le> y \<and> y \<le> 99 then 1900 + y else y)"

definition Date_UTC :: "int \<Rightarrow> int \<Rightarrow> int \<Rightarrow> int \<Rightarrow> int \<Rightarrow> int \<Rightarrow> int \<Rightarrow> int option" where
  "Date_UTC year month date hours minutes seconds ms =
     TimeClip (MakeDate (MakeDay (full_year year) month date) (MakeTime hours minutes seconds ms))"

definition LocalTime :: "js_runtime \<Rightarrow> int \<Rightarrow> int" where
  "LocalTime rt t = t + LocalTZA rt + DaylightSavingTA rt t"

definition UTC :: "js_runtime \<Rightarrow> int \<Rightarrow> int" where
  "UTC rt t = t - LocalTZA rt - DaylightSavingTA rt (t - LocalTZA rt)"

definition Date_local :: "js_runtime \<Rightarrow> int \<Rightarrow> int \<Rightarrow> int \<Rightarrow> int \<Rightarrow> int \<Rightarrow> int \<Rightarrow> int \<Rightarrow> int option" where
  "Date_local rt year month date hours minutes seconds ms =
     TimeClip (UTC rt (MakeDate (MakeDay (full_year year) month date)
                                (MakeTime hours minutes seconds ms)))"

definition YearFromTime :: "int \<Rightarrow> int" where
  "YearFromTime t = fst (civil_from_days (t div msPerDay))"

definition MonthFromTime :: "int \<Rightarrow> int" where
  "MonthFromTime t = fst (snd (civil_from_days (t div msPerDay))) - 1"

definition DateFromTime :: "int \<Rightarrow> int" where
  "DateFromTime t = snd (snd (civil_from_days (t div msPerDay)))"

definition HourFromTime :: "int \<Rightarrow> int" where
  "HourFromTime t = (t div 3600000) mod 24"

definition MinFromTime :: "int \<Rightarrow> int" where
  "MinFromTime t = (t div 60000) mod 60"

definition SecFromTime :: "int \<Rightarrow> int" where
  "SecFromTime t = (t div 1000) mod 60"

definition msFromTime :: "int \<Rightarrow> int" where
  "msFromTime t = t mod 1000"

text \<open>A getter result as \<^verbatim>\<open>lpad\<close> stringifies it; the getters of an invalid Date give NaN.\<close>

definition field_string :: "int option \<Rightarrow> string" where
  "field_string x = (case x of None \<Rightarrow> ''NaN'' | Some i \<Rightarrow> int_to_string i)"

subsection \<open>fromRaw and toRaw of the DatetimeFormatter\<close>

text \<open>The three segments that both methods cut out of the trimmed input.\<close>

definition segments :: "DatetimeFormatter \<Rightarrow> string \<Rightarrow> string option \<times> string option \<times> string option" where
  "segments this s =
     (let parts = ISO_split s;
          first = (case nth_opt parts 0 of None \<Rightarrow> [] | Some p \<Rightarrow> p);
          second = (case nth_opt parts 1 of None \<Rightarrow> [] | Some p \<Rightarrow> p)
      in if includeDate this then (nth_opt parts 0, nth_opt parts 1, nth_opt parts 2)
         else (Some [], Some first, Some second))"

text \<open>
  The seven arguments both methods hand to the Date: \<^verbatim>\<open>1 * g || 0\<close> and
  \<^verbatim>\<open>1 * g || null\<close> give 0 for a group that did not match, and the zone groups are
  added to the hours and to the minutes.
\<close>

definition date_args ::
  "(string \<times> string \<times> string) option \<Rightarrow> (string \<times> string \<times> string \<times> string option) option
   \<Rightarrow> int \<Rightarrow> int \<Rightarrow> int \<times> int \<times> int \<times> int \<times> int \<times> int \<times> int" where
  "date_args YYYYMMDD HHmmssSSS zz ZZ =
     (let Y = (case YYYYMMDD of None \<Rightarrow> 0 | Some (y, m, d) \<Rightarrow> group_val y);
          M = (case YYYYMMDD of None \<Rightarrow> 0 | Some (y, m, d) \<Rightarrow> group_val m - 1);
          D = (case YYYYMMDD of None \<Rightarrow> 0 | Some (y, m, d) \<Rightarrow> group_val d);
          H = (case HHmmssSSS of None \<Rightarrow> 0 | Some (h, m, s, f) \<Rightarrow> group_val h);
          Mi = (case HHmmssSSS of None \<Rightarrow> 0 | Some (h, m, s, f) \<Rightarrow> group_val m);
          S = (case HHmmssSSS of None \<Rightarrow> 0 | Some (h, m, s, f) \<Rightarrow> group_val s);
          F = (case HHmmssSSS of None \<Rightarrow> 0 | Some (h, m, s, f) \<Rightarrow> milli_val f)
      in (Y, M, D, H + zz, Mi + ZZ, S, F))"

text \<open>The date and time texts of a time value, already shifted to the zone to be shown.\<close>

definition date_text :: "int option \<Rightarrow> string" where
  "date_text t =
     lpad (field_string (map_option YearFromTime t)) 4 ''0'' @ ''-''
     @ lpad (field_string (map_option (\<lambda>u. MonthFromTime u + 1) t)) 2 ''0'' @ ''-''
     @ lpad (field_string (map_option DateFromTime t)) 2 ''0''"

definition time_text :: "bool \<Rightarrow> int option \<Rightarrow> string" where
  "time_text milli t =
     lpad (field_string (map_option HourFromTime t)) 2 ''0'' @ '':''
     @ lpad (field_string (map_option MinFromTime t)) 2 ''0'' @ '':''
     @ lpad (field_string (map_option SecFromTime t)) 2 ''0''
     @ (if milli then ''.'' @ lpad (field_string (map_option msFromTime t)) 3 ''0'' else [])"

definition DatetimeFormatter_fromRaw :: "js_runtime \<Rightarrow> DatetimeFormatter \<Rightarrow> jsval \<Rightarrow> error + string" where
  "DatetimeFormatter_fromRaw rt this rawData =
     (case trim rt rawData of
        Inl e \<Rightarrow> Inl e
      | Inr s \<Rightarrow>
          (case segments this s of (date, time, zone) \<Rightarrow>
             (let YYYYMMDD = DATE_RE_exec (exec_arg date);
                  HHmmssSSS = TIME_RE_exec (exec_arg time);
                  zzZZ = ZONE_RE_exec (exec_arg zone);
                  zz = (case zzZZ of None \<Rightarrow> 0 | Some (a, b) \<Rightarrow> group_val a);
                  ZZ = (case zzZZ of None \<Rightarrow> 0 | Some (a, b) \<Rightarrow> group_val b);
                  jsDate = (case date_args YYYYMMDD HHmmssSSS zz ZZ of
                              (Y, M, D, H, Mi, S, F) \<Rightarrow> Date_UTC Y M D H Mi S F);
                  local = map_option (LocalTime rt) jsDate;
                  result = (if includeDate this then date_text local else []);
                  result' = (if includeTime this
                             then result @ '' '' @ time_text (includeMilli this) local
                             else result)
              in Inr result')))"

definition DatetimeFormatter_toRaw :: "js_runtime \<Rightarrow> DatetimeFormatter \<Rightarrow> jsval \<Rightarrow> error + jsval" where
  "DatetimeFormatter_toRaw rt this formattedData =
     (case trim rt formattedData of
        Inl e \<Rightarrow> Inl e
      | Inr s \<Rightarrow>
          (case segments this s of (date, time, zone) \<Rightarrow>
             (let YYYYMMDD = DATE_RE_exec (exec_arg date);
                  HHmmssSSS = TIME_RE_exec (exec_arg time);
                  zzZZ = ZONE_RE_exec (exec_arg zone)
              in if includeDate this \<and> YYYYMMDD = None then Inr JUndefined
                 else if includeTime this \<and> HHmmssSSS = None then Inr JUndefined
                 else if \<not> includeDate this \<and> date \<noteq> None \<and> date \<noteq> Some [] then Inr JUndefined
                 else if \<not> includeTime this \<and> time \<noteq> None \<and> time \<noteq> Some [] then Inr JUndefined
                 else
                   (let jsDate =
                          (case zzZZ of
                             Some (a, b) \<Rightarrow>
                               (case date_args YYYYMMDD HHmmssSSS (group_val a) (group_val b) of
                                  (Y, M, D, H, Mi, S, F) \<Rightarrow> Date_UTC Y M D H Mi S F)
                           | None \<Rightarrow>
                               (case date_args YYYYMMDD HHmmssSSS 0 0 of
                                  (Y, M, D, H, Mi, S, F) \<Rightarrow> Date_local rt Y M D H Mi S F));
                        result = (if includeDate this then date_text jsDate else []);
                        result' = (if includeTime this then
                                     (if includeDate this then result @ ''T'' else result)
                                     @ time_text (includeMilli this) jsDate
                                     @ (if includeDate this then ''Z'' else [])
                                   else result)
                    in Inr (JStr result')))))"

section \<open>Formatter, Column and the attribute store\<close>

text \<open>
  A formatter is any object with the two methods; \<^verbatim>\<open>toRaw\<close> answers \<^verbatim>\<open>undefined\<close>
  for input it cannot convert.
\<close>

record Formatter =
  fromRaw :: "jsval \<Rightarrow> error + jsval"
  toRaw :: "jsval \<Rightarrow> error + jsval"

definition Formatter_new :: Formatter where
  "Formatter_new = \<lparr>fromRaw = (\<lambda>rawData. Inr rawData), toRaw = (\<lambda>formattedData. Inr formattedData)\<rparr>"

definition NumberFormatter_object :: "js_runtime \<Rightarrow> NumberFormatter \<Rightarrow> Formatter" where
  "NumberFormatter_object rt this =
     \<lparr>fromRaw = (\<lambda>x. map_sum id JStr (NumberFormatter_fromRaw rt this x)),
      toRaw = NumberFormatter_toRaw rt this\<rparr>"

definition DatetimeFormatter_object :: "js_runtime \<Rightarrow> DatetimeFormatter \<Rightarrow> Formatter" where
  "DatetimeFormatter_object rt this =
     \<lparr>fromRaw = (\<lambda>x. map_sum id JStr (DatetimeFormatter_fromRaw rt this x)),
      toRaw = DatetimeFormatter_toRaw rt this\<rparr>"

datatype formatter_spec = FormatterName string | FormatterObject Formatter

datatype cell_class =
    StringCell | UriCell | EmailCell | NumberCell | IntegerCell | DatetimeCell | DateCell
  | TimeCell | BooleanCell | SelectCell | HeaderCellClass | CellClassObject string

datatype cell_spec = CellName string | CellClass cell_class



record Column =
  col_name :: string
  col_label :: string
  col_sortable :: bool
  col_editable :: bool
  col_renderable :: bool
  col_formatter :: "formatter_spec option"
  col_cell :: cell_class
  col_headerCell :: "cell_spec option"






text \<open>
  The attribute store is the host's model object: \<^verbatim>\<open>get\<close> answers \<^verbatim>\<open>undefined\<close> for
  an attribute that is not set, and \<^verbatim>\<open>set\<close> either stores the value or, when the
  store's own validation rejects it, answers \<^verbatim>\<open>false\<close> and stores nothing.
\<close>

record store =
  attributes :: "string \<rightharpoonup> jsval"
  validate :: "string \<Rightarrow> jsval \<Rightarrow> bool"

definition store_get :: "store \<Rightarrow> string \<Rightarrow> jsval" where
  "store_get m k = (case attributes m k of None \<Rightarrow> JUndefined | Some v \<Rightarrow> v)"

definition store_set :: "store \<Rightarrow> string \<Rightarrow> jsval \<Rightarrow> store option" where
  "store_set m k v = (if validate m k v then Some (m\<lparr>attributes := (attributes m)(k \<mapsto> v)\<rparr>) else None)"

section \<open>Cell and DivCellEditor\<close>

datatype signal = Sig_edit | Sig_editing | Sig_done | Sig_error

datatype handler = Editor_remove | Cell_exitEditMode_handler | Cell_renderError_handler

record DivCellEditor =
  ed_text :: jsval
  on_done :: "handler list"
  on_error :: "handler list"
  ed_removed :: bool

text \<open>
  The cell with its model and its editor. \<open>el_text\<close> is the text of the table cell
  (\<open>None\<close> once it is emptied), \<open>classes\<close> its CSS classes, \<open>triggered\<close> the signals
  fired so far by the cell and by its editor, \<open>set_calls\<close> the calls of the store's
  \<^verbatim>\<open>set\<close> so far.
\<close>

record Cell =
  column :: Column
  model :: store
  formatter :: Formatter
  currentEditor :: "DivCellEditor option"
  classes :: "string set"
  el_text :: "jsval option"
  delegated :: bool
  triggered :: "signal list"
  set_calls :: "(string \<times> jsval) list"

definition Cell_render :: "Cell \<Rightarrow> error + Cell" where
  "Cell_render this =
     (case fromRaw (formatter this) (store_get (model this) (col_name (column this))) of
        Inl e \<Rightarrow> Inl e
      | Inr shown \<Rightarrow> Inr (this\<lparr>el_text := Some shown\<rparr>))"

definition DivCellEditor_render :: "Cell \<Rightarrow> DivCellEditor \<Rightarrow> error + DivCellEditor" where
  "DivCellEditor_render cell ed =
     (case fromRaw (formatter cell) (store_get (model cell) (col_name (column cell))) of
        Inl e \<Rightarrow> Inl e
      | Inr shown \<Rightarrow> Inr (ed\<lparr>ed_text := shown\<rparr>))"

definition Cell_enterEditMode :: "Cell \<Rightarrow> error + Cell" where
  "Cell_enterEditMode this =
     (if col_editable (column this) then
        (let ed = \<lparr>ed_text = JStr [], on_done = [Editor_remove], on_error = [], ed_removed = False\<rparr>;
             ed' = ed\<lparr>on_done := on_done ed @ [Cell_exitEditMode_handler],
                      on_error := on_error ed @ [Cell_renderError_handler]\<rparr>
         in case DivCellEditor_render this ed' of
              Inl e \<Rightarrow> Inl e
            | Inr ed'' \<Rightarrow>
                Inr (this\<lparr>currentEditor := Some ed'',
                          triggered := triggered this @ [Sig_edit, Sig_editing],
                          el_text := None,
                          delegated := False,
                          classes := insert ''editor'' (classes this)\<rparr>))
      else Inr this)"

definition Cell_renderError :: "Cell \<Rightarrow> Cell" where
  "Cell_renderError this = this\<lparr>classes := insert ''error'' (classes this)\<rparr>"

definition Cell_exitEditMode :: "Cell \<Rightarrow> error + Cell" where
  "Cell_exitEditMode this =
     (case Cell_render (this\<lparr>classes := classes this - {''error''} - {''editor''},
                             currentEditor := None\<rparr>) of
        Inl e \<Rightarrow> Inl e
      | Inr this' \<Rightarrow> Inr (this'\<lparr>delegated := True\<rparr>))"

definition run_handler :: "handler \<Rightarrow> Cell \<Rightarrow> error + Cell" where
  "run_handler h this =
     (case h of
        Editor_remove \<Rightarrow>
          Inr (this\<lparr>currentEditor := map_option (\<lambda>ed. ed\<lparr>ed_removed := True\<rparr>) (currentEditor this)\<rparr>)
      | Cell_exitEditMode_handler \<Rightarrow> Cell_exitEditMode this
      | Cell_renderError_handler \<Rightarrow> Inr (Cell_renderError this))"

fun run_handlers :: "handler list \<Rightarrow> Cell \<Rightarrow> error + Cell" where
  "run_handlers [] this = Inr this"
| "run_handlers (h # hs) this =
     (case run_handler h this of Inl e \<Rightarrow> Inl e | Inr this' \<Rightarrow> run_handlers hs this')"

text \<open>The editor fires a signal: the handlers subscribed to it run in the order of subscription.\<close>

definition editor_trigger :: "signal \<Rightarrow> Cell \<Rightarrow> error + Cell" where
  "editor_trigger sig this =
     (let hs = (case currentEditor this of
                  None \<Rightarrow> []
                | Some ed \<Rightarrow> if sig = Sig_done then on_done ed
                             else if sig = Sig_error then on_error ed else [])
      in run_handlers hs (this\<lparr>triggered := triggered this @ [sig]\<rparr>))"

record dom_event =
  ev_type :: string
  keyCode :: int

definition editor_undo :: "Cell \<Rightarrow> error + Cell" where
  "editor_undo this =
     (case currentEditor this of
        None \<Rightarrow> Inl TypeError
      | Some ed \<Rightarrow>
          (case DivCellEditor_render this ed of
             Inl e \<Rightarrow> Inl e
           | Inr ed' \<Rightarrow> editor_trigger Sig_done (this\<lparr>currentEditor := Some ed'\<rparr>)))"

definition DivCellEditor_saveOrCancel :: "dom_event \<Rightarrow> Cell \<Rightarrow> error + Cell" where
  "DivCellEditor_saveOrCancel e this =
     (case currentEditor this of
        None \<Rightarrow> Inl TypeError
      | Some ed \<Rightarrow>
          if ev_type e = ''keydown'' then
            (if keyCode e = 13 \<or> keyCode e = 9 then
               (case toRaw (formatter this) (ed_text ed) of
                  Inl err \<Rightarrow> Inl err
                | Inr valueToSet \<Rightarrow>
                    if valueToSet = JUndefined then editor_trigger Sig_error this
                    else
                      (let this' = this\<lparr>set_calls :=
                                     set_calls this @ [(col_name (column this), valueToSet)]\<rparr>
                       in case store_set (model this) (col_name (column this)) valueToSet of
                            Some m \<Rightarrow> editor_trigger Sig_done (this'\<lparr>model := m\<rparr>)
                          | None \<Rightarrow> editor_trigger Sig_error this'))
             else if keyCode e = 27 then editor_undo this
             else Inr this)
          else if ev_type e = ''blur'' then editor_undo this
          else Inr this)"

section \<open>HeaderCell and Header\<close>

text \<open>
  The comparison operators on primitive values: \<^verbatim>\<open>===\<close>, and \<^verbatim>\<open><\<close>, which compares
  two strings by their characters and anything else by its Number (NaN compares false).
\<close>

definition strict_equals :: "jsval \<Rightarrow> jsval \<Rightarrow> bool" where
  "strict_equals x y =
     (case (x, y) of
        (JNum a, JNum b) \<Rightarrow> a \<noteq> NaN \<and> a = b
      | _ \<Rightarrow> x = y)"

fun str_less :: "string \<Rightarrow> string \<Rightarrow> bool" where
  "str_less [] [] = False"
| "str_less [] (y # ys) = True"
| "str_less (x # xs) [] = False"
| "str_less (x # xs) (y # ys) =
     ((of_char x :: nat) < of_char y \<or> (x = y \<and> str_less xs ys))"

fun num_less :: "jsnum \<Rightarrow> jsnum \<Rightarrow> bool" where
  "num_less NaN y = False"
| "num_less x NaN = False"
| "num_less PosInf y = False"
| "num_less x NegInf = False"
| "num_less NegInf y = True"
| "num_less x PosInf = True"
| "num_less (Fin a) (Fin b) = (a < b)"

definition less_than :: "jsval \<Rightarrow> jsval \<Rightarrow> bool" where
  "less_than x y =
     (case (x, y) of
        (JStr a, JStr b) \<Rightarrow> str_less a b
      | _ \<Rightarrow> num_less (ToNumber x) (ToNumber y))"

definition greater_than :: "jsval \<Rightarrow> jsval \<Rightarrow> bool" where
  "greater_than x y = less_than y x"

datatype direction = ascending | descending

type_synonym comparator = "store \<Rightarrow> store \<Rightarrow> int"

text \<open>The comparator sent when the header cell is in neither direction.\<close>

definition comparator_from_none :: "string \<Rightarrow> comparator" where
  "comparator_from_none columnName left right =
     (let leftVal = store_get left columnName; rightVal = store_get right columnName
      in if strict_equals leftVal rightVal then 0
         else if less_than leftVal rightVal then - 1 else 1)"

text \<open>The comparator sent when the header cell is in the ascending direction.\<close>

definition comparator_from_ascending :: "string \<Rightarrow> comparator" where
  "comparator_from_ascending columnName left right =
     (let leftVal = store_get left columnName; rightVal = store_get right columnName
      in if strict_equals leftVal rightVal then 0
         else if greater_than leftVal rightVal then - 1 else 1)"

record HeaderCell =
  hc_column :: Column
  hc_direction :: "direction option"

type_synonym sort_event = "comparator option \<times> string \<times> direction option"

definition HeaderCell_triggerSort :: "HeaderCell \<Rightarrow> sort_event option" where
  "HeaderCell_triggerSort this =
     (let columnName = col_name (hc_column this)
      in if col_sortable (hc_column this) then
           (if hc_direction this = Some ascending
              then Some (Some (comparator_from_ascending columnName), columnName, Some descending)
            else if hc_direction this = Some descending
              then Some (None, columnName, None)
            else Some (Some (comparator_from_none columnName), columnName, Some ascending))
         else None)"

definition HeaderCell_toggle :: "string \<Rightarrow> direction option \<Rightarrow> HeaderCell \<Rightarrow> HeaderCell" where
  "HeaderCell_toggle columnName dir this =
     (if columnName = col_name (hc_column this) then this\<lparr>hc_direction := dir\<rparr>
      else this\<lparr>hc_direction := None\<rparr>)"

text \<open>
  The header with its cells; \<open>sort_calls\<close> are the comparators handed to the parent's
  \<^verbatim>\<open>sort\<close> so far.
\<close>

record Header =
  cells :: "HeaderCell list"
  sort_calls :: "comparator option list"

definition Header_dispatchSortEvent :: "sort_event \<Rightarrow> Header \<Rightarrow> Header" where
  "Header_dispatchSortEvent ev this =
     (case ev of (comparator, sortByColName, dir) \<Rightarrow>
        this\<lparr>sort_calls := sort_calls this @ [comparator],
             cells := map (HeaderCell_toggle sortByColName dir) (cells this)\<rparr>)"

text \<open>A click on the anchor of the \<open>i\<close>-th header cell.\<close>

definition Header_click :: "nat \<Rightarrow> Header \<Rightarrow> Header" where
  "Header_click i this =
     (if i < length (cells this) then
        (case HeaderCell_triggerSort (cells this ! i) of
           None \<Rightarrow> this
         | Some ev \<Rightarrow> Header_dispatchSortEvent ev this)
      else this)"

text \<open>The user edits the text in the editor of a cell.\<close>

definition user_types :: "string \<Rightarrow> Cell \<Rightarrow> Cell" where
  "user_types s this =
     this\<lparr>currentEditor := map_option (\<lambda>ed. ed\<lparr>ed_text := JStr s\<rparr>) (currentEditor this)\<rparr>"

section \<open>Reference functions in the words of the specification\<close>

text \<open>
  The specification speaks of rounding to a number of decimal places half away from
  zero, of removing every occurrence of a separator, of replacing every occurrence of a
  separator, and of a separator inserted every three digits from the right. These
  functions say what the words mean; the code is compared with them below.
\<close>

definition round_half_away :: "nat \<Rightarrow> rat \<Rightarrow> rat" where
  "round_half_away f x =
     (if x < 0 then - 1 else 1) * of_int \<lfloor>\<bar>x\<bar> * of_int (10 ^ f) + 1 / 2\<rfloor> / of_int (10 ^ f)"









section \<open>Objects for the worked examples\<close>

text \<open>
  A browser in the UTC zone with a native \<^verbatim>\<open>trim\<close>. Its Number-to-String is written
  down for \<open>10^21\<close> alone, which ECMAScript prints as \<^verbatim>\<open>1e+21\<close>; no example prints
  another Number that way.
\<close>

definition example_runtime :: js_runtime where
  "example_runtime =
     \<lparr>native_trim = True,
      number_toString = (\<lambda>q. if q = of_int (10 ^ 21) then ''1e+21'' else []),
      LocalTZA = 0,
      DaylightSavingTA = (\<lambda>t. 0)\<rparr>"

definition example_column :: Column where
  "example_column =
     \<lparr>col_name = ''price'', col_label = ''Price'', col_sortable = True, col_editable = True,
      col_renderable = True, col_formatter = None, col_cell = NumberCell, col_headerCell = None\<rparr>"

definition example_header :: Header where
  "example_header = \<lparr>cells = [\<lparr>hc_column = example_column, hc_direction = None\<rparr>], sort_calls = []\<rparr>"


definition example_row :: "rat \<Rightarrow> store" where
  "example_row q = \<lparr>attributes = [''price'' \<mapsto> JNum (Fin q)], validate = (\<lambda>k v. True)\<rparr>"

definition example_cell :: Cell where
  "example_cell =
     \<lparr>column = example_column,
      model = example_row 10,
      formatter = NumberFormatter_object example_runtime NumberFormatter_defaults,
      currentEditor = None,
      classes = {},
      el_text = Some (JStr ''10.00''),
      delegated = True,
      triggered = [],
      set_calls = []\<rparr>"

definition enter_key :: dom_event where
  "enter_key = \<lparr>ev_type = ''keydown'', keyCode = 13\<rparr>"

section \<open>Construction errors\<close>



section \<open>The sort cycle of a header cell\<close>

lemma toggle_self: "hc_direction (HeaderCell_toggle (col_name (hc_column c)) d c) = d"
  by (simp add: HeaderCell_toggle_def)

lemma toggle_column: "hc_column (HeaderCell_toggle n d c) = hc_column c"
  by (simp add: HeaderCell_toggle_def)

lemma click_step:
  assumes "i < length (cells h)" "col_sortable (hc_column (cells h ! i))"
    and "HeaderCell_triggerSort (cells h ! i) = Some (cmp, n, d)"
  shows "length (cells (Header_click i h)) = length (cells h)"
    and "hc_column (cells (Header_click i h) ! i) = hc_column (cells h ! i)"
    and "hc_direction (cells (Header_click i h) ! i) = d"
    and "sort_calls (Header_click i h) = sort_calls h @ [cmp]"
    and "n = col_name (hc_column (cells h ! i))"
proof -
  have n: "n = col_name (hc_column (cells h ! i))"
    using assms(3) by (auto simp: HeaderCell_triggerSort_def Let_def split: if_splits)
  show "n = col_name (hc_column (cells h ! i))" by (rule n)
  show "length (cells (Header_click i h)) = length (cells h)"
    using assms by (simp add: Header_click_def Header_dispatchSortEvent_def)
  show "hc_column (cells (Header_click i h) ! i) = hc_column (cells h ! i)"
    using assms by (simp add: Header_click_def Header_dispatchSortEvent_def toggle_column)
  show "hc_direction (cells (Header_click i h) ! i) = d"
    using assms n by (simp add: Header_click_def Header_dispatchSortEvent_def toggle_self)
  show "sort_calls (Header_click i h) = sort_calls h @ [cmp]"
    using assms by (simp add: Header_click_def Header_dispatchSortEvent_def)
qed

text \<open>
  Claim C2. For a sortable column whose header cell starts in no direction, three
  successive sort triggers send, in this order: the direction ascending with a comparator
  that answers -1 when the left record's value for the column is smaller than the right's,
  0 when the two are equal and 1 otherwise; the direction descending with the mirror
  comparator, which answers -1 when the left value is greater; and no comparator with no
  direction. After each trigger the header cell is in the direction that was sent.
\<close>

theorem sort_cycle:
  assumes i: "i < length (cells h)"
    and sortable: "col_sortable (hc_column (cells h ! i))"
    and start: "hc_direction (cells h ! i) = None"
    and n: "n = col_name (hc_column (cells h ! i))"
    and h1: "h1 = Header_click i h" and h2: "h2 = Header_click i h1" and h3: "h3 = Header_click i h2"
  shows "HeaderCell_triggerSort (cells h ! i) = Some (Some (comparator_from_none n), n, Some ascending)
       \<and> hc_direction (cells h1 ! i) = Some ascending
       \<and> HeaderCell_triggerSort (cells h1 ! i) = Some (Some (comparator_from_ascending n), n, Some descending)
       \<and> hc_direction (cells h2 ! i) = Some descending
       \<and> HeaderCell_triggerSort (cells h2 ! i) = Some (None, n, None)
       \<and> hc_direction (cells h3 ! i) = None
       \<and> sort_calls h3 = sort_calls h @ [Some (comparator_from_none n), Some (comparator_from_ascending n), None]
       \<and> (\<forall>l r. comparator_from_none n l r =
              (if strict_equals (store_get l n) (store_get r n) then 0
               else if less_than (store_get l n) (store_get r n) then - 1 else 1))
       \<and> (\<forall>l r. comparator_from_ascending n l r =
              (if strict_equals (store_get l n) (store_get r n) then 0
               else if greater_than (store_get l n) (store_get r n) then - 1 else 1))"
proof -
  have t0: "HeaderCell_triggerSort (cells h ! i) = Some (Some (comparator_from_none n), n, Some ascending)"
    using sortable start n by (simp add: HeaderCell_triggerSort_def Let_def)
  note s1 = click_step [OF i sortable t0]
  have i1: "i < length (cells h1)" and c1: "hc_column (cells h1 ! i) = hc_column (cells h ! i)"
    and d1: "hc_direction (cells h1 ! i) = Some ascending"
    using s1 i h1 by simp_all
  have t1: "HeaderCell_triggerSort (cells h1 ! i) = Some (Some (comparator_from_ascending n), n, Some descending)"
    using sortable c1 d1 n by (simp add: HeaderCell_triggerSort_def Let_def)
  have sortable1: "col_sortable (hc_column (cells h1 ! i))" using sortable c1 by simp
  note s2 = click_step [OF i1 sortable1 t1]
  have i2: "i < length (cells h2)" and c2: "hc_column (cells h2 ! i) = hc_column (cells h ! i)"
    and d2: "hc_direction (cells h2 ! i) = Some descending"
    using s2 i1 h2 c1 by simp_all
  have t2: "HeaderCell_triggerSort (cells h2 ! i) = Some (None, n, None)"
    using sortable c2 d2 n by (simp add: HeaderCell_triggerSort_def Let_def)
  have sortable2: "col_sortable (hc_column (cells h2 ! i))" using sortable c2 by simp
  note s3 = click_step [OF i2 sortable2 t2]
  have d3: "hc_direction (cells h3 ! i) = None" using s3 h3 by simp
  have calls: "sort_calls h3 = sort_calls h @ [Some (comparator_from_none n), Some (comparator_from_ascending n), None]"
    using s1(4) s2(4) s3(4) h1 h2 h3 by simp
  show ?thesis
    using t0 d1 t1 d2 t2 d3 calls
    by (simp add: comparator_from_none_def comparator_from_ascending_def Let_def)
qed

theorem sort_cycle_witness:
  "hc_direction (cells (Header_click 0 example_header) ! 0) = Some ascending
   \<and> hc_direction (cells (Header_click 0 (Header_click 0 example_header)) ! 0) = Some descending
   \<and> hc_direction (cells (Header_click 0 (Header_click 0 (Header_click 0 example_header))) ! 0) = None
   \<and> comparator_from_none ''price'' (example_row 1) (example_row 2) = - 1
   \<and> comparator_from_none ''price'' (example_row 2) (example_row 2) = 0
   \<and> comparator_from_none ''price'' (example_row 2) (example_row 1) = 1
   \<and> comparator_from_ascending ''price'' (example_row 2) (example_row 1) = - 1
   \<and> comparator_from_ascending ''price'' (example_row 1) (example_row 2) = 1"
proof -
  have a: "0 < length (cells example_header)"
    and b: "col_sortable (hc_column (cells example_header ! 0))"
    and c: "hc_direction (cells example_header ! 0) = None"
    and d: "''price'' = col_name (hc_column (cells example_header ! 0))"
    by (simp_all add: example_header_def example_column_def)
  have vals: "store_get (example_row 1) ''price'' = JNum (Fin 1)"
    "store_get (example_row 2) ''price'' = JNum (Fin 2)"
    by (simp_all add: example_row_def store_get_def)
  show ?thesis
    using sort_cycle [OF a b c d refl refl refl]
    by (simp add: vals strict_equals_def less_than_def greater_than_def)
qed

lemma digit_char:
  assumes "k < 10"
  shows "is_digit (''0123456789'' ! k)" and "digit_val (''0123456789'' ! k) = int k"
proof -
  from assms have "k = 0 \<or> k = 1 \<or> k = 2 \<or> k = 3 \<or> k = 4 \<or> k = 5 \<or> k = 6 \<or> k = 7 \<or> k = 8 \<or> k = 9"
    by arith
  then show "is_digit (''0123456789'' ! k)" and "digit_val (''0123456789'' ! k) = int k"
    by (auto simp: is_digit_def digit_val_def)
qed

lemma digits_val_snoc: "digits_val (xs @ [c]) = 10 * digits_val xs + digit_val c"
  by (simp add: digits_val_def)

lemma digits_val_append: "digits_val (xs @ ys) = digits_val xs * 10 ^ length ys + digits_val ys"
proof (induction ys rule: rev_induct)
  case Nil
  show ?case by (simp add: digits_val_def)
next
  case (snoc y ys)
  have "digits_val (xs @ ys @ [y]) = 10 * digits_val (xs @ ys) + digit_val y"
    using digits_val_snoc [of "xs @ ys" y] by simp
  also have "\<dots> = digits_val xs * 10 ^ length (ys @ [y]) + digits_val (ys @ [y])"
    by (simp add: snoc.IH digits_val_snoc algebra_simps)
  finally show ?case by simp
qed

lemma digits_val_zeros: "digits_val (replicate k CHR ''0'' @ xs) = digits_val xs"
proof -
  have "digits_val (replicate k CHR ''0'') = 0"
  proof (induction k)
    case 0
    show ?case by (simp add: digits_val_def)
  next
    case (Suc k)
    have "replicate (Suc k) CHR ''0'' = replicate k CHR ''0'' @ [CHR ''0'']"
      by (simp add: replicate_append_same)
    then show ?case using Suc by (simp only: digits_val_snoc) (simp add: digit_val_def)
  qed
  then show ?thesis by (simp add: digits_val_append)
qed

lemma digits_of_props:
  "0 \<le> n \<Longrightarrow> all_digits (digits_of n) \<and> digits_of n \<noteq> [] \<and> digits_val (digits_of n) = n"
proof (induction n rule: digits_of.induct)
  case (1 n)
  show ?case
  proof (cases "n < 10")
    case True
    with 1(2) have k: "nat n < 10" by simp
    have "digits_of n = [''0123456789'' ! nat n]" using True by (subst digits_of.simps) simp
    then show ?thesis using digit_char [OF k] 1(2) by (simp add: all_digits_def digits_val_def)
  next
    case False
    then have ih: "all_digits (digits_of (n div 10))" "digits_of (n div 10) \<noteq> []"
      "digits_val (digits_of (n div 10)) = n div 10"
      using 1 by simp_all
    have k: "nat (n mod 10) < 10" by simp
    have eq: "digits_of n = digits_of (n div 10) @ [''0123456789'' ! nat (n mod 10)]"
      using False by (subst digits_of.simps) simp
    show ?thesis
      using ih digit_char [OF k] by (simp add: eq all_digits_def digits_val_snoc)
  qed
qed

lemma is_digit_zero: "is_digit CHR ''0''"
  by (simp add: is_digit_def)

lemma all_digits_zeros: "all_digits (replicate k CHR ''0'')"
  by (induction k) (simp_all add: all_digits_def is_digit_zero)

lemma all_digits_append: "all_digits (xs @ ys) \<longleftrightarrow> all_digits xs \<and> all_digits ys"
  by (simp add: all_digits_def)

lemma all_digits_take: "all_digits xs \<Longrightarrow> all_digits (take k xs)"
  unfolding all_digits_def list_all_iff by (meson in_set_takeD)

lemma all_digits_drop: "all_digits xs \<Longrightarrow> all_digits (drop k xs)"
  unfolding all_digits_def list_all_iff by (meson in_set_dropD)

lemma fixed_digits_shape:
  assumes "0 \<le> a"
  shows "\<exists>ip fp. fixed_digits a f = ip @ (if f = 0 then [] else CHR ''.'' # fp)
          \<and> all_digits ip \<and> ip \<noteq> [] \<and> all_digits fp \<and> length fp = f
          \<and> digits_val (ip @ fp) = \<lfloor>a * of_int (10 ^ f) + 1 / 2\<rfloor>"
proof -
  define N where "N = \<lfloor>a * of_int (10 ^ f) + 1 / 2\<rfloor>"
  have N: "0 \<le> N" using assms by (simp add: N_def)
  note p = digits_of_props [OF N]
  show ?thesis
  proof (cases "f = 0")
    case True
    have "fixed_digits a f = digits_of N" using True by (simp add: fixed_digits_def Let_def N_def)
    then show ?thesis using p True
      by (intro exI [of _ "digits_of N"] exI [of _ "[]"]) (simp add: all_digits_def N_def)
  next
    case False
    define m where "m = replicate (f + 1 - length (digits_of N)) CHR ''0'' @ digits_of N"
    define k where "k = length m"
    have len: "f + 1 \<le> k" by (simp add: k_def m_def)
    have all: "all_digits m" using p by (simp add: m_def all_digits_append all_digits_zeros)
    have val: "digits_val m = N" using p by (simp add: m_def digits_val_zeros)
    have fd: "fixed_digits a f = take (k - f) m @ CHR ''.'' # drop (k - f) m"
      using False by (simp add: fixed_digits_def Let_def N_def m_def k_def)
    have 1: "fixed_digits a f = take (k - f) m @ (if f = 0 then [] else CHR ''.'' # drop (k - f) m)"
      using fd False by simp
    have 2: "take (k - f) m \<noteq> []" using len by (auto simp: k_def)
    have 3: "length (drop (k - f) m) = f" using len by (simp add: k_def)
    have 4: "digits_val (take (k - f) m @ drop (k - f) m) = \<lfloor>a * of_int (10 ^ f) + 1 / 2\<rfloor>"
      using val by (simp add: N_def)
    show ?thesis
      using 1 2 3 4 all_digits_take [OF all] all_digits_drop [OF all] by blast
  qed
qed
lemma not_digit_chars:
  "\<not> is_digit CHR ''.''" "\<not> is_digit CHR ''-''" "\<not> is_digit CHR ''+''" "\<not> is_digit CHR ''x''"
  "\<not> is_digit CHR ''X''" "\<not> is_digit CHR ''I''" "\<not> is_digit CHR ''$''" "\<not> is_digit CHR '',''"
  by (simp_all add: is_digit_def)

lemma digit_not_ws: "is_digit c \<Longrightarrow> \<not> is_ws c"
  by (auto simp: is_digit_def is_ws_def)

lemma minus_not_ws: "\<not> is_ws CHR ''-''"
  by (simp add: is_ws_def)

lemma all_digits_set: "all_digits xs \<longleftrightarrow> (\<forall>c\<in>set xs. is_digit c)"
  by (simp add: all_digits_def list_all_iff)

lemma takeWhile_all_digits:
  assumes "all_digits xs"
  shows "takeWhile is_digit xs = xs" and "dropWhile is_digit xs = []"
  using assms by (simp_all add: all_digits_set)

lemma takeWhile_digits_then:
  assumes "all_digits xs" "\<not> is_digit c"
  shows "takeWhile is_digit (xs @ c # ys) = xs" and "dropWhile is_digit (xs @ c # ys) = c # ys"
  using assms by (simp_all add: all_digits_set takeWhile_append2 dropWhile_append2)

lemma pow10_neg: "pow10 (- int k) = 1 / of_int (10 ^ k)"
  by (simp add: pow10_def)

lemma str_unsigned_decimal_fixed:
  assumes "all_digits ip" "ip \<noteq> []" "all_digits fp"
  shows "str_unsigned_decimal (ip @ (if length fp = 0 then [] else CHR ''.'' # fp))
         = Some (of_int (digits_val (ip @ fp)) / of_int (10 ^ length fp))"
proof (cases "fp = []")
  case True
  then show ?thesis
    using assms(2)
    by (simp add: str_unsigned_decimal_def Let_def exponent_part_def pow10_def
        takeWhile_all_digits [OF assms(1)])
next
  case False
  have "str_unsigned_decimal (ip @ CHR ''.'' # fp)
        = Some (of_int (digits_val (ip @ fp)) * pow10 (0 - int (length fp)))"
    using assms(2) False
    by (simp add: str_unsigned_decimal_def Let_def exponent_part_def
        takeWhile_digits_then [OF assms(1) not_digit_chars(1)] takeWhile_all_digits [OF assms(3)])
  then show ?thesis using False by (simp add: pow10_neg)
qed

lemma str_trim_id:
  assumes "s \<noteq> []" "\<not> is_ws (hd s)" "\<not> is_ws (last s)"
  shows "str_trim s = s"
proof -
  have a: "dropWhile is_ws s = s" using assms(2) by (simp add: dropWhile_eq_self_iff)
  have b: "dropWhile is_ws (rev s) = rev s" using assms(3) by (simp add: dropWhile_eq_self_iff hd_rev)
  show ?thesis by (simp add: str_trim_def a b)
qed

lemma negate_nearest_double: "negate (nearest_double q) = nearest_double (- q)"
  by (simp add: nearest_double_def Let_def negate_def)

lemma radix_of_plain: "is_digit c \<or> c = CHR ''.'' \<Longrightarrow> radix_of c = None"
  by (auto simp: radix_of_def is_digit_def)

lemma str_numeric_literal_plain:
  assumes "c \<noteq> CHR ''+''" "c \<noteq> CHR ''-''"
    and "\<not> (cs \<noteq> [] \<and> radix_of (hd cs) \<noteq> None)"
  shows "str_numeric_literal (c # cs) = str_unsigned (c # cs)"
  using assms by (auto simp: str_numeric_literal_def)

lemma ToNumber_fixed:
  assumes "0 \<le> a"
  shows "ToNumber_string (fixed_digits a f)
           = nearest_double (of_int \<lfloor>a * of_int (10 ^ f) + 1 / 2\<rfloor> / of_int (10 ^ f))"
    and "ToNumber_string (CHR ''-'' # fixed_digits a f)
           = nearest_double (- (of_int \<lfloor>a * of_int (10 ^ f) + 1 / 2\<rfloor> / of_int (10 ^ f)))"
proof -
  define N where "N = \<lfloor>a * of_int (10 ^ f) + 1 / 2\<rfloor>"
  from fixed_digits_shape [OF assms, of f] obtain ip fp where
    s: "fixed_digits a f = ip @ (if f = 0 then [] else CHR ''.'' # fp)"
    and ip: "all_digits ip" "ip \<noteq> []" and fp: "all_digits fp" "length fp = f"
    and v: "digits_val (ip @ fp) = N"
    unfolding N_def by blast
  define t where "t = fixed_digits a f"
  have t: "t = ip @ (if length fp = 0 then [] else CHR ''.'' # fp)" using s fp(2) by (simp add: t_def)
  have parse: "str_unsigned_decimal t = Some (of_int N / of_int (10 ^ f))"
    using str_unsigned_decimal_fixed [OF ip fp(1)] v fp(2) t by simp
  obtain c cs where ccs: "ip = c # cs" using ip(2) by (cases ip) auto
  have c: "is_digit c" using ip(1) ccs by (simp add: all_digits_def)
  have tne: "t \<noteq> []" and hd: "hd t = c" using t ccs by simp_all
  have plain: "\<forall>x\<in>set t. is_digit x \<or> x = CHR ''.''"
    using t ip(1) fp(1) by (auto simp: all_digits_set split: if_splits)
  have lastd: "is_digit (last t)"
  proof (cases "length fp = 0")
    case True
    then show ?thesis using t ip by (simp add: all_digits_set)
  next
    case False
    then have "fp \<noteq> []" by auto
    then have "last t = last fp" using t False by simp
    then show ?thesis using fp(1) \<open>fp \<noteq> []\<close> by (simp add: all_digits_set)
  qed
  have trim1: "str_trim t = t"
    using str_trim_id [OF tne] hd c lastd digit_not_ws by simp
  have trim2: "str_trim (CHR ''-'' # t) = CHR ''-'' # t"
    using str_trim_id [of "CHR ''-'' # t"] tne lastd digit_not_ws minus_not_ws by simp
  obtain ts where tl: "t = c # ts" using tne hd by (cases t) auto
  have nohex: "\<not> (ts \<noteq> [] \<and> radix_of (hd ts) \<noteq> None)"
  proof
    assume h: "ts \<noteq> [] \<and> radix_of (hd ts) \<noteq> None"
    then have "hd ts \<in> set t" unfolding tl by simp
    then have "is_digit (hd ts) \<or> hd ts = CHR ''.''" using plain by blast
    then have "radix_of (hd ts) = None" by (rule radix_of_plain)
    then show False using h by simp
  qed
  have notinf: "t \<noteq> ''Infinity''" using hd c not_digit_chars(6) by auto
  have cne: "c \<noteq> CHR ''+''" "c \<noteq> CHR ''-''" using c not_digit_chars by auto
  have us: "str_unsigned t = Some (nearest_double (of_int N / of_int (10 ^ f)))"
    using parse notinf by (simp add: str_unsigned_def)
  have "str_numeric_literal (c # ts) = str_unsigned (c # ts)"
    by (rule str_numeric_literal_plain [OF cne nohex])
  then have lit: "str_numeric_literal t = Some (nearest_double (of_int N / of_int (10 ^ f)))"
    using us unfolding tl by simp
  have r1: "ToNumber_string t = nearest_double (of_int N / of_int (10 ^ f))"
    using lit trim1 tne by (simp add: ToNumber_string_def Let_def)
  have lit2: "str_numeric_literal (CHR ''-'' # t) = Some (nearest_double (- (of_int N / of_int (10 ^ f))))"
    using us by (simp add: str_numeric_literal_def negate_nearest_double)
  have r2: "ToNumber_string (CHR ''-'' # t) = nearest_double (- (of_int N / of_int (10 ^ f)))"
    using lit2 trim2 by (simp add: ToNumber_string_def Let_def)
  show "ToNumber_string (fixed_digits a f)
           = nearest_double (of_int \<lfloor>a * of_int (10 ^ f) + 1 / 2\<rfloor> / of_int (10 ^ f))"
    using r1 unfolding t_def N_def .
  show "ToNumber_string (CHR ''-'' # fixed_digits a f)
           = nearest_double (- (of_int \<lfloor>a * of_int (10 ^ f) + 1 / 2\<rfloor> / of_int (10 ^ f)))"
    using r2 unfolding t_def N_def .
qed
lemma nearest_double_not_NaN: "nearest_double q \<noteq> NaN"
  by (simp add: nearest_double_def Let_def)

lemma nearest_double_zero: "nearest_double 0 = Fin 0"
  by (simp add: nearest_double_def)

lemma ToNumber_string_words:
  "ToNumber_string ''NaN'' = NaN" "ToNumber_string ''Infinity'' = PosInf"
  "ToNumber_string ''-Infinity'' = NegInf" "ToNumber_string [] = Fin 0"
  by code_simp+

lemma toFixed_finite:
  assumes "0 \<le> d" "d \<le> 20" "\<bar>q\<bar> < of_int (10 ^ 21)"
  shows "toFixed rt (Fin q) d = Inr ((if q < 0 then ''-'' else []) @ fixed_digits \<bar>q\<bar> (nat d))"
  using assms by (simp add: toFixed_def)

lemma toFixed_ToNumber:
  assumes "0 \<le> d" "d \<le> 20" "\<bar>q\<bar> < of_int (10 ^ 21)"
  shows "\<exists>s. toFixed rt (Fin q) d = Inr s
           \<and> ToNumber_string s = nearest_double (round_half_away (nat d) q)"
proof (cases "q < 0")
  case True
  have "ToNumber_string (CHR ''-'' # fixed_digits \<bar>q\<bar> (nat d))
          = nearest_double (round_half_away (nat d) q)"
    using ToNumber_fixed(2) [of "\<bar>q\<bar>" "nat d"] True by (simp add: round_half_away_def)
  then show ?thesis using toFixed_finite [OF assms] True by simp
next
  case False
  have "ToNumber_string (fixed_digits \<bar>q\<bar> (nat d)) = nearest_double (round_half_away (nat d) q)"
    using ToNumber_fixed(1) [of "\<bar>q\<bar>" "nat d"] False by (simp add: round_half_away_def)
  then show ?thesis using toFixed_finite [OF assms] False by simp
qed

lemma toRaw_cases:
  assumes "0 \<le> decimals this" "decimals this \<le> 20"
    and x: "x = ToNumber_string (NumberFormatter_clean this (str_trim s))"
  shows "x = NaN \<Longrightarrow> NumberFormatter_toRaw rt this (JStr s) = Inr JUndefined"
    and "x = PosInf \<Longrightarrow> NumberFormatter_toRaw rt this (JStr s) = Inr (JNum PosInf)"
    and "x = NegInf \<Longrightarrow> NumberFormatter_toRaw rt this (JStr s) = Inr (JNum NegInf)"
    and "x = Fin q \<Longrightarrow> \<bar>q\<bar> < of_int (10 ^ 21) \<Longrightarrow>
           NumberFormatter_toRaw rt this (JStr s)
             = Inr (JNum (nearest_double (round_half_away (nat (decimals this)) q)))"
proof -
  have tr: "trim rt (JStr s) = Inr (str_trim s)" by (simp add: trim_def)
  show "x = NaN \<Longrightarrow> NumberFormatter_toRaw rt this (JStr s) = Inr JUndefined"
    using assms by (simp add: NumberFormatter_toRaw_def tr toFixed_def ToNumber_string_words)
  show "x = PosInf \<Longrightarrow> NumberFormatter_toRaw rt this (JStr s) = Inr (JNum PosInf)"
    using assms by (simp add: NumberFormatter_toRaw_def tr toFixed_def ToNumber_string_words)
  show "x = NegInf \<Longrightarrow> NumberFormatter_toRaw rt this (JStr s) = Inr (JNum NegInf)"
    using assms by (simp add: NumberFormatter_toRaw_def tr toFixed_def ToNumber_string_words)
  show "NumberFormatter_toRaw rt this (JStr s)
             = Inr (JNum (nearest_double (round_half_away (nat (decimals this)) q)))"
    if "x = Fin q" "\<bar>q\<bar> < of_int (10 ^ 21)"
  proof -
    from toFixed_ToNumber [OF assms(1,2) that(2), of rt] obtain t where
      t: "toFixed rt (Fin q) (decimals this) = Inr t"
      "ToNumber_string t = nearest_double (round_half_away (nat (decimals this)) q)"
      by blast
    show ?thesis
      using t that(1) x [symmetric]
      by (simp add: NumberFormatter_toRaw_def tr nearest_double_not_NaN Let_def)
  qed
qed

lemma str_trim_blank:
  assumes "list_all is_ws s"
  shows "str_trim s = []"
proof -
  have h: "dropWhile is_ws s = []" using assms unfolding list_all_iff by (simp only: dropWhile_eq_Nil_conv)
  show ?thesis unfolding str_trim_def h by simp
qed

lemma floor_half: "\<lfloor>1 / 2 :: rat\<rfloor> = 0"
  by (simp add: floor_eq_iff)

lemma round_half_away_zero: "round_half_away f 0 = 0"
  by (simp add: round_half_away_def floor_half)

lemma clean_empty: "NumberFormatter_clean this [] = []"
  by (simp add: NumberFormatter_clean_def js_split_def Let_def)

lemma constructed_decimals:
  assumes "NumberFormatter_new options = Inr this"
  shows "0 \<le> decimals this" "decimals this \<le> 20"
  using assms by (auto simp: NumberFormatter_new_def Let_def split: if_splits)

lemma blank_toRaw:
  assumes "NumberFormatter_new options = Inr this" and "list_all is_ws s"
  shows "NumberFormatter_toRaw rt this (JStr s) = Inr (JNum (Fin 0))"
proof -
  note d = constructed_decimals [OF assms(1)]
  have x: "Fin 0 = ToNumber_string (NumberFormatter_clean this (str_trim s))"
    using assms(2) by (simp add: str_trim_blank clean_empty ToNumber_string_words)
  show ?thesis
    using toRaw_cases(4) [OF d x, of 0 rt]
    by (simp add: round_half_away_zero nearest_double_zero)
qed


lemma split_at_nonempty: "split_at sep cur k s \<noteq> []"
  by (induction sep cur k s rule: split_at.induct) simp_all








lemma fromRaw_finite_returns:
  assumes "0 \<le> decimals this" "decimals this \<le> 20" "\<bar>q\<bar> < of_int (10 ^ 21)"
  shows "\<exists>shown. NumberFormatter_fromRaw rt this (JNum (Fin q)) = Inr shown"
proof -
  obtain s where s: "toFixed rt (Fin q) (decimals this) = Inr s"
    using toFixed_finite [OF assms] by simp
  obtain p ps where p: "js_split ''.'' s = p # ps"
    using split_at_nonempty [of "''.''" "[]" 0 s] by (cases "js_split ''.'' s") (auto simp: js_split_def)
  show ?thesis
    by (simp add: NumberFormatter_fromRaw_def s p Let_def)
qed



























section \<open>The sign of the comparators\<close>

lemma num_less_irrefl: "\<not> num_less x x"
  by (cases x) simp_all

lemma num_less_asym: "num_less x y \<Longrightarrow> \<not> num_less y x"
  by (cases x; cases y) simp_all

lemma str_less_irrefl: "\<not> str_less s s"
  by (induction s) simp_all

lemma str_less_asym: "str_less s t \<Longrightarrow> \<not> str_less t s"
  by (induction s t rule: str_less.induct) auto

lemma less_than_asym: "less_than x y \<Longrightarrow> \<not> less_than y x"
  by (cases x; cases y) (auto simp: less_than_def dest: num_less_asym str_less_asym)

lemma less_than_irrefl: "\<not> less_than x x"
  by (cases x) (simp_all add: less_than_def num_less_irrefl str_less_irrefl)

lemma strict_equals_eq: "strict_equals x y \<Longrightarrow> x = y"
  by (cases x; cases y) (simp_all add: strict_equals_def)

lemma less_than_not_equal: "less_than x y \<Longrightarrow> \<not> strict_equals y x \<and> \<not> strict_equals x y"
  using less_than_irrefl strict_equals_eq by blast

text \<open>
  Claim C3, as stated, fails: the comparator sent together with the direction ascending
  answers 1, not -1, for a left record whose value is greater than the right one's. Here
  the header cell of the price column is in no direction, the left price is 2 and the
  right price is 1.
\<close>

theorem ascending_label_counterexample:
  "HeaderCell_triggerSort \<lparr>hc_column = example_column, hc_direction = None\<rparr>
     = Some (Some (comparator_from_none ''price''), ''price'', Some ascending)
   \<and> greater_than (store_get (example_row 2) ''price'') (store_get (example_row 1) ''price'')
   \<and> comparator_from_none ''price'' (example_row 2) (example_row 1) = 1"
  by (simp add: HeaderCell_triggerSort_def example_column_def Let_def comparator_from_none_def
      example_row_def store_get_def greater_than_def less_than_def strict_equals_def)

text \<open>
  Claim C3, amended. The comparator that a header cell sends together with the direction
  ascending answers 1 when the left record's value is greater than the right one's and
  -1 for the two records exchanged; it is sent by a cell that is not in the ascending
  direction. The comparator that answers -1 for a greater left value is the one sent
  together with the direction descending, by a cell that is in the ascending direction.
\<close>

theorem ascending_label_comparator:
  assumes ev: "HeaderCell_triggerSort this = Some (Some cmp, n, Some lab)"
    and gt: "greater_than (store_get l n) (store_get r n)"
  shows "(lab = ascending \<longrightarrow> cmp l r = 1 \<and> cmp r l = - 1 \<and> hc_direction this \<noteq> Some ascending)
       \<and> (lab = descending \<longrightarrow> cmp l r = - 1 \<and> cmp r l = 1 \<and> hc_direction this = Some ascending)"
proof -
  have lt: "less_than (store_get r n) (store_get l n)" using gt by (simp add: greater_than_def)
  note ne = less_than_not_equal [OF lt] and asym = less_than_asym [OF lt]
  show ?thesis
    using ev lt ne asym
    by (auto simp: HeaderCell_triggerSort_def Let_def comparator_from_none_def
        comparator_from_ascending_def greater_than_def split: if_splits)
qed

theorem ascending_label_comparator_witness:
  "comparator_from_none ''price'' (example_row 5) (example_row 3) = 1
   \<and> comparator_from_none ''price'' (example_row 3) (example_row 5) = - 1
   \<and> comparator_from_ascending ''price'' (example_row 5) (example_row 3) = - 1
   \<and> comparator_from_ascending ''price'' (example_row 3) (example_row 5) = 1"
proof -
  have gt: "greater_than (store_get (example_row 5) ''price'') (store_get (example_row 3) ''price'')"
    by (simp add: example_row_def store_get_def greater_than_def less_than_def)
  have up: "HeaderCell_triggerSort \<lparr>hc_column = example_column, hc_direction = None\<rparr>
      = Some (Some (comparator_from_none ''price''), ''price'', Some ascending)"
    by (simp add: HeaderCell_triggerSort_def example_column_def Let_def)
  have down: "HeaderCell_triggerSort \<lparr>hc_column = example_column, hc_direction = Some ascending\<rparr>
      = Some (Some (comparator_from_ascending ''price''), ''price'', Some descending)"
    by (simp add: HeaderCell_triggerSort_def example_column_def Let_def)
  show ?thesis
    using ascending_label_comparator [OF up gt] ascending_label_comparator [OF down gt] by simp
qed

section \<open>The DatetimeFormatter on a zone offset and on null\<close>

text \<open>
  Claim C4 at a failing input, in a browser in the UTC zone: the text
  \<^verbatim>\<open>2012-01-01T10:00:00+05:00\<close> denotes the instant 05:00:00 UTC of that day, but
  \<^verbatim>\<open>fromRaw\<close> shows midnight and \<^verbatim>\<open>toRaw\<close> of what is shown is midnight UTC: the
  splitter does not cut the offset off the time, so neither the time nor the zone pattern
  matches. When the offset is cut off by a space, it is added to the time instead of being
  subtracted: 10:00:00 at +05:00 comes back as 15:00:00 UTC.
\<close>

theorem datetime_offset_roundtrip:
  "DatetimeFormatter_fromRaw example_runtime DatetimeFormatter_defaults (JStr ''2012-01-01T10:00:00+05:00'')
     = Inr ''2012-01-01 00:00:00''
   \<and> DatetimeFormatter_toRaw example_runtime DatetimeFormatter_defaults (JStr ''2012-01-01 00:00:00'')
     = Inr (JStr ''2012-01-01T00:00:00Z'')
   \<and> DatetimeFormatter_fromRaw example_runtime DatetimeFormatter_defaults (JStr ''2012-01-01T10:00:00 +05:00'')
     = Inr ''2012-01-01 15:00:00''
   \<and> DatetimeFormatter_toRaw example_runtime DatetimeFormatter_defaults (JStr ''2012-01-01 15:00:00'')
     = Inr (JStr ''2012-01-01T15:00:00Z'')"
  by code_simp

text \<open>
  Claim C5 at a failing input: \<^verbatim>\<open>fromRaw\<close> of the DatetimeFormatter raises a TypeError
  on \<^verbatim>\<open>null\<close> and on \<^verbatim>\<open>undefined\<close>, in every runtime and for every configuration,
  since \<^verbatim>\<open>trim\<close> is applied first; \<^verbatim>\<open>fromRaw\<close> of the NumberFormatter guards
  \<^verbatim>\<open>null\<close> and answers the empty string.
\<close>

theorem datetime_fromRaw_null:
  "DatetimeFormatter_fromRaw rt this JNull = Inl TypeError
   \<and> DatetimeFormatter_fromRaw rt this JUndefined = Inl TypeError
   \<and> NumberFormatter_fromRaw rt nf JNull = Inr []"
  by (simp add: DatetimeFormatter_fromRaw_def trim_def NumberFormatter_fromRaw_def)

section \<open>The commit gesture of the cell editor\<close>

lemma enter_shape:
  assumes "Cell_enterEditMode c0 = Inr c1" "col_editable (column c0)"
  shows "\<exists>t. currentEditor c1 = Some \<lparr>ed_text = t, on_done = [Editor_remove, Cell_exitEditMode_handler],
            on_error = [Cell_renderError_handler], ed_removed = False\<rparr>"
    and "column c1 = column c0" and "model c1 = model c0" and "formatter c1 = formatter c0"
    and "classes c1 = insert ''editor'' (classes c0)" and "set_calls c1 = set_calls c0"
    and "triggered c1 = triggered c0 @ [Sig_edit, Sig_editing]"
  using assms
  by (auto simp: Cell_enterEditMode_def DivCellEditor_render_def Let_def split: sum.splits)

text \<open>
  Claim C6, as stated, fails in its last part: a commit whose input \<^verbatim>\<open>toRaw\<close> cannot
  convert makes no write attempt at all. Here the price cell with the default
  NumberFormatter is put in edit mode, the user types \<^verbatim>\<open>12x3\<close> and presses Enter: the
  store's \<^verbatim>\<open>set\<close> has not been called.
\<close>

theorem editor_commit_counterexample:
  "map_sum id set_calls (Cell_enterEditMode example_cell) = Inr []
   \<and> toRaw (formatter example_cell) (JStr ''12x3'') = Inr JUndefined
   \<and> map_sum id set_calls
       (DivCellEditor_saveOrCancel enter_key
          (user_types ''12x3'' (projr (Cell_enterEditMode example_cell)))) = Inr []"
  by code_simp

lemma commit_outcomes:
  assumes entered: "Cell_enterEditMode c0 = Inr c1"
    and editable: "col_editable (column c0)"
    and typed: "c = user_types input c1"
    and key: "ev_type e = ''keydown''" "keyCode e = 13 \<or> keyCode e = 9"
    and conv: "toRaw (formatter c0) (JStr input) = Inr v"
    and n: "n = col_name (column c0)"
  shows "(v = JUndefined \<longrightarrow>
           (\<exists>c'. DivCellEditor_saveOrCancel e c = Inr c'
              \<and> triggered c' = triggered c @ [Sig_error]
              \<and> model c' = model c
              \<and> currentEditor c' = currentEditor c \<and> currentEditor c' \<noteq> None
              \<and> ''editor'' \<in> classes c' \<and> classes c' = insert ''error'' (classes c)
              \<and> set_calls c' = set_calls c))
       \<and> (v \<noteq> JUndefined \<and> validate (model c) n v \<and> fromRaw (formatter c0) v = Inr shown \<longrightarrow>
           (\<exists>c'. DivCellEditor_saveOrCancel e c = Inr c'
              \<and> triggered c' = triggered c @ [Sig_done]
              \<and> attributes (model c') = (attributes (model c))(n \<mapsto> v)
              \<and> currentEditor c' = None
              \<and> classes c' = classes c - {''error''} - {''editor''}
              \<and> el_text c' = Some shown
              \<and> set_calls c' = set_calls c @ [(n, v)]))
       \<and> (v \<noteq> JUndefined \<and> \<not> validate (model c) n v \<longrightarrow>
           (\<exists>c'. DivCellEditor_saveOrCancel e c = Inr c'
              \<and> triggered c' = triggered c @ [Sig_error]
              \<and> model c' = model c
              \<and> currentEditor c' = currentEditor c \<and> currentEditor c' \<noteq> None
              \<and> ''editor'' \<in> classes c' \<and> classes c' = insert ''error'' (classes c)
              \<and> set_calls c' = set_calls c @ [(n, v)]))"
proof -
  from enter_shape [OF entered editable] obtain t where
    ed: "currentEditor c1 = Some \<lparr>ed_text = t, on_done = [Editor_remove, Cell_exitEditMode_handler],
            on_error = [Cell_renderError_handler], ed_removed = False\<rparr>"
    and rest: "column c1 = column c0" "model c1 = model c0" "formatter c1 = formatter c0"
      "classes c1 = insert ''editor'' (classes c0)"
    by blast
  show ?thesis
    using ed rest typed key conv n
    by (auto simp: DivCellEditor_saveOrCancel_def user_types_def editor_trigger_def run_handler_def
        Cell_renderError_def Cell_exitEditMode_def Cell_render_def store_set_def store_get_def Let_def)
qed

text \<open>
  Claim C6, amended. A cell enters edit mode, the user types, and Enter or Tab is pressed.
  If \<^verbatim>\<open>toRaw\<close> answers \<^verbatim>\<open>undefined\<close> for the input, the editor fires error, the model
  is unchanged, the editor stays the cell's current editor, the cell keeps the class
  editor and gains the class error, and the store's \<^verbatim>\<open>set\<close> is not called. If
  \<^verbatim>\<open>toRaw\<close> answers a value and the store accepts it, the editor fires done, the
  attribute holds the value, the cell has no editor and neither class, it shows
  \<^verbatim>\<open>fromRaw\<close> of the value, and \<^verbatim>\<open>set\<close> was called once. If the store rejects the
  value, the outcome is that of the first case but for the one call of \<^verbatim>\<open>set\<close>. So a
  commit makes at most one write attempt: none in the first case, one otherwise.
\<close>

theorem editor_commit:
  assumes entered: "Cell_enterEditMode c0 = Inr c1"
    and editable: "col_editable (column c0)"
    and typed: "c = user_types input c1"
    and key: "ev_type e = ''keydown''" "keyCode e = 13 \<or> keyCode e = 9"
    and conv: "toRaw (formatter c0) (JStr input) = Inr v"
    and n: "n = col_name (column c0)"
  shows "(v = JUndefined \<longrightarrow>
           (\<exists>c'. DivCellEditor_saveOrCancel e c = Inr c'
              \<and> triggered c' = triggered c @ [Sig_error]
              \<and> model c' = model c
              \<and> currentEditor c' = currentEditor c \<and> currentEditor c' \<noteq> None
              \<and> ''editor'' \<in> classes c' \<and> classes c' = insert ''error'' (classes c)
              \<and> set_calls c' = set_calls c))
       \<and> (v \<noteq> JUndefined \<and> validate (model c) n v \<and> fromRaw (formatter c0) v = Inr shown \<longrightarrow>
           (\<exists>c'. DivCellEditor_saveOrCancel e c = Inr c'
              \<and> triggered c' = triggered c @ [Sig_done]
              \<and> attributes (model c') = (attributes (model c))(n \<mapsto> v)
              \<and> currentEditor c' = None
              \<and> classes c' = classes c - {''error''} - {''editor''}
              \<and> el_text c' = Some shown
              \<and> set_calls c' = set_calls c @ [(n, v)]))
       \<and> (v \<noteq> JUndefined \<and> \<not> validate (model c) n v \<longrightarrow>
           (\<exists>c'. DivCellEditor_saveOrCancel e c = Inr c'
              \<and> triggered c' = triggered c @ [Sig_error]
              \<and> model c' = model c
              \<and> currentEditor c' = currentEditor c \<and> currentEditor c' \<noteq> None
              \<and> ''editor'' \<in> classes c' \<and> classes c' = insert ''error'' (classes c)
              \<and> set_calls c' = set_calls c @ [(n, v)]))"
  using commit_outcomes [OF entered editable typed key conv n] .

lemma example_cell_enters: "\<exists>c1. Cell_enterEditMode example_cell = Inr c1"
proof -
  have "isl (Cell_enterEditMode example_cell) = False" by code_simp
  then show ?thesis by (cases "Cell_enterEditMode example_cell") simp_all
qed

lemma example_cell_conversions:
  "toRaw (formatter example_cell) (JStr ''12x3'') = Inr JUndefined"
  "toRaw (formatter example_cell) (JStr ''1,234.50'') = Inr (JNum (Fin (2469 / 2)))"
  "fromRaw (formatter example_cell) (JNum (Fin (2469 / 2))) = Inr (JStr ''1,234.50'')"
  by code_simp+

theorem editor_commit_witness:
  "\<exists>c1 bad good.
      Cell_enterEditMode example_cell = Inr c1
    \<and> DivCellEditor_saveOrCancel enter_key (user_types ''12x3'' c1) = Inr bad
    \<and> currentEditor bad \<noteq> None \<and> ''error'' \<in> classes bad \<and> set_calls bad = []
    \<and> attributes (model bad) ''price'' = Some (JNum (Fin 10))
    \<and> DivCellEditor_saveOrCancel enter_key (user_types ''1,234.50'' c1) = Inr good
    \<and> currentEditor good = None \<and> classes good = {}
    \<and> el_text good = Some (JStr ''1,234.50'')
    \<and> attributes (model good) ''price'' = Some (JNum (Fin (2469 / 2)))
    \<and> set_calls good = [(''price'', JNum (Fin (2469 / 2)))]"
proof -
  from example_cell_enters obtain c1 where c1: "Cell_enterEditMode example_cell = Inr c1" ..
  have editable: "col_editable (column example_cell)"
    and n: "''price'' = col_name (column example_cell)"
    by (simp_all add: example_cell_def example_column_def)
  have key: "ev_type enter_key = ''keydown''" "keyCode enter_key = 13 \<or> keyCode enter_key = 9"
    by (simp_all add: enter_key_def)
  note shape = enter_shape [OF c1 editable]
  have start: "set_calls c1 = []" "classes c1 = {''editor''}" "model c1 = example_row 10"
    using shape by (simp_all add: example_cell_def)
  have valid: "validate (model (user_types s c1)) k x" for s k x
    using start by (simp add: user_types_def example_row_def)
  have same: "set_calls (user_types s c1) = []" "model (user_types s c1) = example_row 10"
    "classes (user_types s c1) = {''editor''}" for s
    using start by (simp_all add: user_types_def)
  let ?b = "user_types ''12x3'' c1" and ?g = "user_types ''1,234.50'' c1"
  have "\<exists>c'. DivCellEditor_saveOrCancel enter_key ?b = Inr c'
          \<and> triggered c' = triggered ?b @ [Sig_error]
          \<and> model c' = model ?b
          \<and> currentEditor c' = currentEditor ?b \<and> currentEditor c' \<noteq> None
          \<and> ''editor'' \<in> classes c' \<and> classes c' = insert ''error'' (classes ?b)
          \<and> set_calls c' = set_calls ?b"
    using editor_commit [OF c1 editable refl key example_cell_conversions(1) n, of undefined]
    by simp
  then obtain bad where bad: "DivCellEditor_saveOrCancel enter_key ?b = Inr bad"
    "model bad = model ?b" "currentEditor bad \<noteq> None"
    "classes bad = insert ''error'' (classes ?b)" "set_calls bad = set_calls ?b"
    by blast
  have "\<exists>c'. DivCellEditor_saveOrCancel enter_key ?g = Inr c'
          \<and> triggered c' = triggered ?g @ [Sig_done]
          \<and> attributes (model c') = (attributes (model ?g))(''price'' \<mapsto> JNum (Fin (2469 / 2)))
          \<and> currentEditor c' = None
          \<and> classes c' = classes ?g - {''error''} - {''editor''}
          \<and> el_text c' = Some (JStr ''1,234.50'')
          \<and> set_calls c' = set_calls ?g @ [(''price'', JNum (Fin (2469 / 2)))]"
    using editor_commit [OF c1 editable refl key example_cell_conversions(2) n,
        of "JStr ''1,234.50''"] valid [of "''1,234.50''"] example_cell_conversions(3)
    by simp
  then obtain good where good: "DivCellEditor_saveOrCancel enter_key ?g = Inr good"
    "attributes (model good) = (attributes (model ?g))(''price'' \<mapsto> JNum (Fin (2469 / 2)))"
    "currentEditor good = None" "classes good = classes ?g - {''error''} - {''editor''}"
    "el_text good = Some (JStr ''1,234.50'')"
    "set_calls good = set_calls ?g @ [(''price'', JNum (Fin (2469 / 2)))]"
    by blast
  have facts: "currentEditor bad \<noteq> None" "''error'' \<in> classes bad" "set_calls bad = []"
    "attributes (model bad) ''price'' = Some (JNum (Fin 10))"
    "currentEditor good = None" "classes good = {}"
    "el_text good = Some (JStr ''1,234.50'')"
    "attributes (model good) ''price'' = Some (JNum (Fin (2469 / 2)))"
    "set_calls good = [(''price'', JNum (Fin (2469 / 2)))]"
    using bad(2-5) good(2-6) same by (simp_all add: example_row_def)
  show ?thesis
    using c1 bad(1) good(1) facts by blast
qed

section \<open>What toRaw of the NumberFormatter answers\<close>



lemma defaults_constructed: "NumberFormatter_new None = Inr NumberFormatter_defaults"
  by (simp add: NumberFormatter_new_def NumberFormatter_extend_def NumberFormatter_defaults_def)



section \<open>Blank input\<close>

text \<open>
  Claim C10. \<^verbatim>\<open>toRaw\<close> of a constructed NumberFormatter, applied to the empty string or
  to a string of white space only, answers the Number 0 and not \<^verbatim>\<open>undefined\<close>. So when
  such a text is committed in the editor of a cell with that formatter, and the store
  accepts the value, the attribute is set to 0 and the editor fires done.
\<close>

theorem blank_input_is_zero:
  assumes made: "NumberFormatter_new options = Inr this"
    and blank: "list_all is_ws s"
    and fmt: "formatter c0 = NumberFormatter_object rt this"
    and entered: "Cell_enterEditMode c0 = Inr c1"
    and editable: "col_editable (column c0)"
    and key: "ev_type e = ''keydown''" "keyCode e = 13 \<or> keyCode e = 9"
    and accepts: "validate (model c0) (col_name (column c0)) (JNum (Fin 0))"
  shows "NumberFormatter_toRaw rt this (JStr s) = Inr (JNum (Fin 0))
       \<and> (\<exists>c'. DivCellEditor_saveOrCancel e (user_types s c1) = Inr c'
              \<and> triggered c' = triggered c1 @ [Sig_done]
              \<and> attributes (model c') (col_name (column c0)) = Some (JNum (Fin 0))
              \<and> set_calls c' = set_calls c1 @ [(col_name (column c0), JNum (Fin 0))])"
proof -
  have zero: "NumberFormatter_toRaw rt this (JStr s) = Inr (JNum (Fin 0))"
    using blank_toRaw [OF made blank] .
  have conv: "toRaw (formatter c0) (JStr s) = Inr (JNum (Fin 0))"
    using zero by (simp add: fmt NumberFormatter_object_def)
  obtain shown where "NumberFormatter_fromRaw rt this (JNum (Fin 0)) = Inr shown"
    using fromRaw_finite_returns [OF constructed_decimals [OF made], of 0 rt] by auto
  then have shown: "fromRaw (formatter c0) (JNum (Fin 0)) = Inr (JStr shown)"
    by (simp add: fmt NumberFormatter_object_def)
  have same: "model (user_types s c1) = model c0" "triggered (user_types s c1) = triggered c1"
    "set_calls (user_types s c1) = set_calls c1"
    using enter_shape [OF entered editable] by (simp_all add: user_types_def)
  have "\<exists>c'. DivCellEditor_saveOrCancel e (user_types s c1) = Inr c'
          \<and> triggered c' = triggered (user_types s c1) @ [Sig_done]
          \<and> attributes (model c') = (attributes (model (user_types s c1)))(col_name (column c0) \<mapsto> JNum (Fin 0))
          \<and> currentEditor c' = None
          \<and> classes c' = classes (user_types s c1) - {''error''} - {''editor''}
          \<and> el_text c' = Some (JStr shown)
          \<and> set_calls c' = set_calls (user_types s c1) @ [(col_name (column c0), JNum (Fin 0))]"
    using commit_outcomes [OF entered editable refl key conv refl, of "JStr shown"] shown accepts same(1)
    by simp
  then show ?thesis using zero same by auto
qed

theorem blank_input_is_zero_witness:
  "NumberFormatter_toRaw example_runtime NumberFormatter_defaults (JStr []) = Inr (JNum (Fin 0))
   \<and> NumberFormatter_toRaw example_runtime NumberFormatter_defaults (JStr ''   '') = Inr (JNum (Fin 0))
   \<and> (\<exists>c1 c'. Cell_enterEditMode example_cell = Inr c1
         \<and> DivCellEditor_saveOrCancel enter_key (user_types ''   '' c1) = Inr c'
         \<and> attributes (model c') ''price'' = Some (JNum (Fin 0)))"
proof -
  from example_cell_enters obtain c1 where c1: "Cell_enterEditMode example_cell = Inr c1" ..
  have fmt: "formatter example_cell = NumberFormatter_object example_runtime NumberFormatter_defaults"
    and editable: "col_editable (column example_cell)"
    and n: "col_name (column example_cell) = ''price''"
    and accepts: "validate (model example_cell) (col_name (column example_cell)) (JNum (Fin 0))"
    by (simp_all add: example_cell_def example_column_def example_row_def)
  have key: "ev_type enter_key = ''keydown''" "keyCode enter_key = 13 \<or> keyCode enter_key = 9"
    by (simp_all add: enter_key_def)
  have b0: "list_all is_ws []" and b3: "list_all is_ws ''   ''" by (simp_all add: is_ws_def)
  show ?thesis
    using blank_input_is_zero [OF defaults_constructed b0 fmt c1 editable key accepts]
      blank_input_is_zero [OF defaults_constructed b3 fmt c1 editable key accepts] c1 n
    by auto
qed

section \<open>What fromRaw of the NumberFormatter shows\<close>




section \<open>The round trip of the NumberFormatter\<close>






end
